theory Spec2Isabelle
  imports Complex_Main
begin

section \<open>JavaScript values\<close>

text \<open>
  An optional property of a JavaScript object is an \<open>option\<close>: \<open>None\<close> is
  \<open>undefined\<close>. A condition on a value tests its truthiness: a string is truthy when
  it is not empty, an optional boolean when it is \<open>true\<close>, an object or an array always.
\<close>

definition truthy_string :: "string option \<Rightarrow> bool" where
  "truthy_string s = (case s of None \<Rightarrow> False | Some t \<Rightarrow> t \<noteq> [])"

definition truthy_bool :: "bool option \<Rightarrow> bool" where
  "truthy_bool b = (b = Some True)"

text \<open>\<open>Array.prototype.findIndex\<close>: the first index whose element satisfies the
  predicate; \<open>None\<close> stands for the result \<open>-1\<close>.\<close>

fun findIndex :: "('a \<Rightarrow> bool) \<Rightarrow> 'a list \<Rightarrow> nat option" where
  "findIndex p [] = None"
| "findIndex p (x # xs) =
     (if p x then Some 0 else map_option Suc (findIndex p xs))"

section \<open>Attendees\<close>

text \<open>\<open>AttendeeStatus\<close> of \<open>interfaces/events.ts\<close>, the provider's
  \<open>GoogleCalendarEventAttendeeResponseStatus\<close> and Microsoft Graph's \<open>ResponseType\<close>.\<close>

datatype AttendeeStatus = Accepted | Tentative | Declined | Unknown

datatype GoogleResponseStatus = GNeedsAction | GAccepted | GTentative | GDeclined

datatype MicrosoftResponseType =
  MsNone | MsOrganizer | MsTentativelyAccepted | MsAccepted | MsDeclined | MsNotResponded

datatype AttendeeType = Required | Optional | Resource

text \<open>\<open>toGoogleCalenderResponseStatus\<close>: \<open>unknown\<close> becomes \<open>needsAction\<close>, every
  other status is returned as it is.\<close>

fun toGoogleCalenderResponseStatus :: "AttendeeStatus \<Rightarrow> GoogleResponseStatus" where
  "toGoogleCalenderResponseStatus Unknown = GNeedsAction"
| "toGoogleCalenderResponseStatus Accepted = GAccepted"
| "toGoogleCalenderResponseStatus Tentative = GTentative"
| "toGoogleCalenderResponseStatus Declined = GDeclined"

text \<open>\<open>parseGoogleCalendarAttendeeStatus\<close>: \<open>needsAction\<close> becomes \<open>unknown\<close>, every
  other status is returned as it is.\<close>

fun parseGoogleCalendarAttendeeStatus :: "GoogleResponseStatus \<Rightarrow> AttendeeStatus" where
  "parseGoogleCalendarAttendeeStatus GNeedsAction = Unknown"
| "parseGoogleCalendarAttendeeStatus GAccepted = Accepted"
| "parseGoogleCalendarAttendeeStatus GTentative = Tentative"
| "parseGoogleCalendarAttendeeStatus GDeclined = Declined"

text \<open>\<open>parseMicrosoftAttendeeStatus\<close>; its argument may be \<open>undefined\<close>, which falls
  through every comparison to the final \<open>unknown\<close>.\<close>

definition parseMicrosoftAttendeeStatus :: "MicrosoftResponseType option \<Rightarrow> AttendeeStatus" where
  "parseMicrosoftAttendeeStatus status =
     (if status = Some MsNotResponded \<or> status = Some MsNone then Unknown
      else if status = Some MsAccepted \<or> status = Some MsOrganizer then Accepted
      else if status = Some MsTentativelyAccepted then Tentative
      else if status = Some MsDeclined then Declined
      else Unknown)"

text \<open>The provider's attendee (\<open>GoogleCalendarEventAttendee\<close>) and the canonical
  \<open>Attendee\<close>. The source casts \<open>responseStatus\<close> to the status type before mapping
  it, so the field is modelled as present.\<close>

record GoogleCalendarEventAttendee =
  ga_id :: "string option"
  ga_email :: "string option"
  ga_displayName :: "string option"
  ga_optional :: "bool option"
  ga_resource :: "bool option"
  ga_responseStatus :: GoogleResponseStatus
  ga_comment :: "string option"
  ga_additionalGuests :: "int option"
  ga_self :: "bool option"
  ga_organizer :: "bool option"

record Attendee =
  a_id :: "string option"
  a_email :: "string option"
  a_name :: "string option"
  a_status :: AttendeeStatus
  a_type :: AttendeeType
  a_comment :: "string option"
  a_organizer :: "bool option"
  a_additionalGuests :: "int option"

definition parseGoogleCalendarAttendeeType :: "GoogleCalendarEventAttendee \<Rightarrow> AttendeeType" where
  "parseGoogleCalendarAttendeeType attendee =
     (if truthy_bool (ga_resource attendee) then Resource
      else if truthy_bool (ga_optional attendee) then Optional
      else Required)"

definition parseGoogleCalendarAttendee :: "GoogleCalendarEventAttendee \<Rightarrow> Attendee" where
  "parseGoogleCalendarAttendee attendee =
     \<lparr> a_id = ga_id attendee,
       a_email = ga_email attendee,
       a_name = ga_displayName attendee,
       a_status = parseGoogleCalendarAttendeeStatus (ga_responseStatus attendee),
       a_type = parseGoogleCalendarAttendeeType attendee,
       a_comment = ga_comment attendee,
       a_organizer = ga_organizer attendee,
       a_additionalGuests = ga_additionalGuests attendee \<rparr>"

text \<open>
  \<open>parseGoogleCalendarAttendeeList\<close>: map every attendee, look for the first one whose
  \<open>organizer\<close> flag is truthy and, when its index is greater than 0, remove it
  (\<open>splice(organizerIndex, 1)\<close>) and put it in front (\<open>unshift\<close>).
\<close>

definition parseGoogleCalendarAttendeeList :: "GoogleCalendarEventAttendee list \<Rightarrow> Attendee list" where
  "parseGoogleCalendarAttendeeList attendees =
     (let mappedAttendees = map parseGoogleCalendarAttendee attendees;
          organizerIndex = findIndex (\<lambda>attendee. truthy_bool (a_organizer attendee)) mappedAttendees
      in case organizerIndex of
           None \<Rightarrow> mappedAttendees
         | Some k \<Rightarrow>
             if 0 < k then
               (let organizer = mappedAttendees ! k
                in organizer # (take k mappedAttendees @ drop (Suc k) mappedAttendees))
             else mappedAttendees)"

section \<open>Temporal values and their ISO 8601 text\<close>

text \<open>
  A date value of the canonical model is exactly one of the three classes of the Temporal
  library that the source distinguishes with \<open>instanceof\<close>. The library is not part of
  the repository; its values are modelled by what they denote, in the ISO calendar:
  \<^item> \<open>PlainDate d\<close> is the calendar date \<open>d\<close> days after 1970-01-01;
  \<^item> \<open>Instant n\<close> is the point \<open>n\<close> nanoseconds after the epoch;
  \<^item> \<open>ZonedDateTime n tz\<close> is the instant \<open>n\<close> with the zone identifier \<open>tz\<close>
    (\<open>timeZoneId\<close>).
\<close>

datatype Temporal = PlainDate int | Instant int | ZonedDateTime int string

text \<open>
  An ISO 8601 string is modelled by its reading. A date-time string is a wall-clock
  reading (nanoseconds after 1970-01-01T00:00 on that clock) followed by nothing
  (\<open>Naive\<close>), by the UTC designator \<open>Z\<close> (\<open>Zulu\<close>), or by a numeric offset from UTC
  (\<open>Offset\<close>, in nanoseconds). \<open>OtherText\<close> is any string that is no ISO 8601 date or
  date-time, the empty string among them.
\<close>

datatype designator = Naive | Zulu | Offset int

datatype iso_text = DateText int | DateTimeText int designator | OtherText string

datatype js_error = RangeError | TypeError | Error string

definition truthy_text :: "iso_text option \<Rightarrow> bool" where
  "truthy_text s = (case s of None \<Rightarrow> False | Some (OtherText t) \<Rightarrow> t \<noteq> [] | Some _ \<Rightarrow> True)"

text \<open>
  What the program knows about time zones is a parameter. The first three fields are the
  time zone database behind the library: which identifiers name a zone, the offset of a
  zone at an instant, and the instant of a wall-clock reading in a zone. The fourth is
  \<open>parseTimeZone\<close> of \<open>microsoft-calendar/utils\<close>, which the sources at hand do not hold:
  the identifier of the zone that a zone string of the provider denotes (a Windows zone
  name among them), \<open>undefined\<close> when it denotes none. \<open>UTC\<close> is always a zone, with
  offset 0, and denotes itself.
\<close>

record TimeZones =
  tz_known :: "string \<Rightarrow> bool"
  tz_offset :: "string \<Rightarrow> int \<Rightarrow> int"
  tz_instantFor :: "string \<Rightarrow> int \<Rightarrow> int"
  tz_parseTimeZone :: "string \<Rightarrow> string option"

definition knownZone :: "TimeZones \<Rightarrow> string \<Rightarrow> bool" where
  "knownZone tzs tz = (tz = ''UTC'' \<or> tz_known tzs tz)"

definition offsetNanosecondsFor :: "TimeZones \<Rightarrow> string \<Rightarrow> int \<Rightarrow> int" where
  "offsetNanosecondsFor tzs tz n = (if tz = ''UTC'' then 0 else tz_offset tzs tz n)"

definition instantFor :: "TimeZones \<Rightarrow> string \<Rightarrow> int \<Rightarrow> int" where
  "instantFor tzs tz w = (if tz = ''UTC'' then w else tz_instantFor tzs tz w)"

definition parseTimeZone :: "TimeZones \<Rightarrow> string \<Rightarrow> string option" where
  "parseTimeZone tzs timeZone =
     (if timeZone = ''UTC'' then Some ''UTC'' else tz_parseTimeZone tzs timeZone)"

definition nsPerDay :: int where
  "nsPerDay = 86400000000000"

definition nsPerMinute :: int where
  "nsPerMinute = 60000000000"

text \<open>The offset as the library writes it in a string: rounded to the minute, a half
  minute away from zero.\<close>

definition roundOffsetToMinute :: "int \<Rightarrow> int" where
  "roundOffsetToMinute off =
     (if 0 \<le> off then ((off + nsPerMinute div 2) div nsPerMinute) * nsPerMinute
      else - (((- off + nsPerMinute div 2) div nsPerMinute) * nsPerMinute))"

text \<open>\<open>Temporal.PlainDate.prototype.toString\<close> and \<open>Temporal.PlainDate.from\<close>. \<open>from\<close>
  takes the date part of a date-time string and refuses one with the designator \<open>Z\<close>.\<close>

definition PlainDate_toString :: "int \<Rightarrow> iso_text" where
  "PlainDate_toString d = DateText d"

fun PlainDate_from :: "iso_text \<Rightarrow> js_error + Temporal" where
  "PlainDate_from (DateText d) = Inr (PlainDate d)"
| "PlainDate_from (DateTimeText w Zulu) = Inl RangeError"
| "PlainDate_from (DateTimeText w Naive) = Inr (PlainDate (w div nsPerDay))"
| "PlainDate_from (DateTimeText w (Offset off)) = Inr (PlainDate (w div nsPerDay))"
| "PlainDate_from (OtherText t) = Inl RangeError"

text \<open>\<open>Temporal.Instant.prototype.toString\<close> writes the UTC reading with the designator
  \<open>Z\<close>; \<open>Temporal.Instant.from\<close> needs a designator or an offset to fix the instant.\<close>

definition Instant_toString :: "int \<Rightarrow> iso_text" where
  "Instant_toString n = DateTimeText n Zulu"

fun Instant_from :: "iso_text \<Rightarrow> js_error + int" where
  "Instant_from (DateTimeText w Zulu) = Inr w"
| "Instant_from (DateTimeText w (Offset off)) = Inr (w - off)"
| "Instant_from (DateTimeText w Naive) = Inl RangeError"
| "Instant_from (DateText d) = Inl RangeError"
| "Instant_from (OtherText t) = Inl RangeError"

text \<open>\<open>Temporal.Instant.prototype.toZonedDateTimeISO\<close>: a \<open>RangeError\<close> for an
  identifier that names no zone.\<close>

definition toZonedDateTimeISO :: "TimeZones \<Rightarrow> int \<Rightarrow> string \<Rightarrow> js_error + Temporal" where
  "toZonedDateTimeISO tzs n tz =
     (if knownZone tzs tz then Inr (ZonedDateTime n tz) else Inl RangeError)"

text \<open>\<open>ZonedDateTime.prototype.toString({ timeZoneName: "never", offset: "auto" })\<close>: the
  exact reading of the zone's clock, followed by the zone's offset rounded to the minute,
  without the bracketed zone name.\<close>

definition ZonedDateTime_toString :: "TimeZones \<Rightarrow> int \<Rightarrow> string \<Rightarrow> iso_text" where
  "ZonedDateTime_toString tzs n tz =
     DateTimeText (n + offsetNanosecondsFor tzs tz n)
       (Offset (roundOffsetToMinute (offsetNanosecondsFor tzs tz n)))"

text \<open>\<open>instant.toZonedDateTimeISO("UTC").toPlainDateTime().toString()\<close>: the reading of
  the UTC clock, with no designator.\<close>

definition utcPlainDateTime_toString :: "TimeZones \<Rightarrow> int \<Rightarrow> iso_text" where
  "utcPlainDateTime_toString tzs n = DateTimeText (n + offsetNanosecondsFor tzs ''UTC'' n) Naive"

section \<open>Google date codec\<close>

text \<open>The provider's \<open>start\<close>/\<open>end\<close> object: \<open>{ date }\<close> or
  \<open>{ dateTime, timeZone }\<close>, every property optional.\<close>

record GoogleCalendarDate =
  g_date :: "iso_text option"
  g_dateTime :: "iso_text option"
  g_timeZone :: "string option"

definition toGoogleCalendarDate :: "TimeZones \<Rightarrow> Temporal \<Rightarrow> GoogleCalendarDate" where
  "toGoogleCalendarDate tzs v =
     (case v of
        PlainDate d \<Rightarrow>
          \<lparr> g_date = Some (PlainDate_toString d), g_dateTime = None, g_timeZone = None \<rparr>
      | Instant n \<Rightarrow>
          \<lparr> g_date = None, g_dateTime = Some (Instant_toString n), g_timeZone = None \<rparr>
      | ZonedDateTime n tz \<Rightarrow>
          \<lparr> g_date = None, g_dateTime = Some (ZonedDateTime_toString tzs n tz),
            g_timeZone = Some tz \<rparr>)"

text \<open>Google's \<open>parseDate\<close> and \<open>parseDateTime\<close>. Both destructure their argument, so
  an absent \<open>start\<close> or \<open>end\<close> is a \<open>TypeError\<close>, as is \<open>from(undefined)\<close>.\<close>

definition parseDate :: "GoogleCalendarDate option \<Rightarrow> js_error + Temporal" where
  "parseDate v =
     (case v of
        None \<Rightarrow> Inl TypeError
      | Some gd \<Rightarrow> (case g_date gd of None \<Rightarrow> Inl TypeError | Some t \<Rightarrow> PlainDate_from t))"

definition parseDateTime :: "TimeZones \<Rightarrow> GoogleCalendarDate option \<Rightarrow> js_error + Temporal" where
  "parseDateTime tzs v =
     (case v of
        None \<Rightarrow> Inl TypeError
      | Some gd \<Rightarrow>
          (case g_dateTime gd of
             None \<Rightarrow> Inl TypeError
           | Some t \<Rightarrow>
               (case Instant_from t of
                  Inl e \<Rightarrow> Inl e
                | Inr instant \<Rightarrow>
                    if \<not> truthy_string (g_timeZone gd) then Inr (Instant instant)
                    else toZonedDateTimeISO tzs instant (the (g_timeZone gd)))))"

text \<open>
  The date fields of \<open>parseGoogleCalendarEvent\<close>: \<open>isAllDay\<close> is the absence of
  \<open>start.dateTime\<close>, and it selects the parser of both \<open>start\<close> and \<open>end\<close>.
\<close>

record ParsedDates =
  pd_start :: Temporal
  pd_end :: Temporal
  pd_allDay :: bool

definition parseGoogleCalendarEventDates ::
  "TimeZones \<Rightarrow> GoogleCalendarDate option \<Rightarrow> GoogleCalendarDate option \<Rightarrow> js_error + ParsedDates" where
  "parseGoogleCalendarEventDates tzs start end' =
     (let isAllDay = \<not> truthy_text (case start of None \<Rightarrow> None | Some gd \<Rightarrow> g_dateTime gd)
      in case (if isAllDay then parseDate start else parseDateTime tzs start) of
           Inl e \<Rightarrow> Inl e
         | Inr s \<Rightarrow>
             (case (if isAllDay then parseDate end' else parseDateTime tzs end') of
                Inl e \<Rightarrow> Inl e
              | Inr e \<Rightarrow> Inr \<lparr> pd_start = s, pd_end = e, pd_allDay = isAllDay \<rparr>))"

section \<open>Microsoft date codec\<close>

record OriginalTimeZone =
  otz_raw :: string
  otz_parsed :: "string option"

record MicrosoftDateTimeTimeZone =
  ms_dateTime :: "iso_text option"
  ms_timeZone :: "string option"

definition toMicrosoftDate ::
  "TimeZones \<Rightarrow> Temporal \<Rightarrow> OriginalTimeZone option \<Rightarrow> MicrosoftDateTimeTimeZone" where
  "toMicrosoftDate tzs v originalTimeZone =
     (case v of
        PlainDate d \<Rightarrow>
          \<lparr> ms_dateTime = Some (PlainDate_toString d),
            ms_timeZone = Some (case originalTimeZone of None \<Rightarrow> ''UTC'' | Some orig \<Rightarrow> otz_raw orig) \<rparr>
      | Instant n \<Rightarrow>
          \<lparr> ms_dateTime = Some (utcPlainDateTime_toString tzs n), ms_timeZone = Some ''UTC'' \<rparr>
      | ZonedDateTime n tz \<Rightarrow>
          \<lparr> ms_dateTime = Some (Instant_toString n),
            ms_timeZone =
              (if (case originalTimeZone of None \<Rightarrow> None | Some orig \<Rightarrow> otz_parsed orig) = Some tz
               then map_option otz_raw originalTimeZone
               else Some tz) \<rparr>)"

text \<open>Microsoft's \<open>parseDate\<close>, applied to \<open>start.dateTime!\<close>.\<close>

definition parseDate_ms :: "iso_text option \<Rightarrow> js_error + Temporal" where
  "parseDate_ms date = (case date of None \<Rightarrow> Inl TypeError | Some t \<Rightarrow> PlainDate_from t)"

text \<open>
  Modelled from the spec: \<open>parseDateTime\<close> of \<open>microsoft-calendar/utils\<close>, which
  \<open>parseMicrosoftEvent\<close> imports and the sources at hand do not hold. The specification
  (4.1) gives its contract: a date-time field with no zone yields an instant; a date-time
  field with a zone yields a zoned date-time anchored to that zone. The zone of a zone
  string is the one \<open>parseTimeZone\<close> gives, since the provider also sends Windows zone
  names and the metadata keep both the raw string and its parsed identifier; a string
  that denotes no zone leaves nothing to anchor to. The instant of a field with a zone is
  the one its text fixes, or, for a text with no designator, the instant at which the
  zone's clock shows that reading.
\<close>

definition parseDateTime_ms ::
  "TimeZones \<Rightarrow> iso_text option \<Rightarrow> string option \<Rightarrow> js_error + Temporal" where
  "parseDateTime_ms tzs dateTime timeZone =
     (case dateTime of
        None \<Rightarrow> Inl TypeError
      | Some t \<Rightarrow>
          if \<not> truthy_string timeZone then
            (case Instant_from t of Inl e \<Rightarrow> Inl e | Inr n \<Rightarrow> Inr (Instant n))
          else
            (case parseTimeZone tzs (the timeZone) of
               None \<Rightarrow> Inl RangeError
             | Some zone \<Rightarrow>
                 (case t of
                    DateTimeText w Naive \<Rightarrow> toZonedDateTimeISO tzs (instantFor tzs zone w) zone
                  | DateTimeText w Zulu \<Rightarrow> toZonedDateTimeISO tzs w zone
                  | DateTimeText w (Offset off) \<Rightarrow> toZonedDateTimeISO tzs (w - off) zone
                  | _ \<Rightarrow> Inl RangeError)))"

text \<open>The date fields of \<open>parseMicrosoftEvent\<close>: a missing \<open>start\<close> or \<open>end\<close> throws;
  the provider's \<open>isAllDay\<close> flag selects the parser.\<close>

definition parseMicrosoftEventDates ::
  "TimeZones \<Rightarrow> MicrosoftDateTimeTimeZone option \<Rightarrow> MicrosoftDateTimeTimeZone option
     \<Rightarrow> bool option \<Rightarrow> js_error + ParsedDates" where
  "parseMicrosoftEventDates tzs start end' isAllDay =
     (case (start, end') of
        (Some s, Some e) \<Rightarrow>
          (case (if truthy_bool isAllDay then parseDate_ms (ms_dateTime s)
                 else parseDateTime_ms tzs (ms_dateTime s) (ms_timeZone s)) of
             Inl err \<Rightarrow> Inl err
           | Inr ps \<Rightarrow>
               (case (if truthy_bool isAllDay then parseDate_ms (ms_dateTime e)
                      else parseDateTime_ms tzs (ms_dateTime e) (ms_timeZone e)) of
                  Inl err \<Rightarrow> Inl err
                | Inr pe \<Rightarrow>
                    Inr \<lparr> pd_start = ps, pd_end = pe,
                          pd_allDay = (case isAllDay of None \<Rightarrow> False | Some b \<Rightarrow> b) \<rparr>))
      | _ \<Rightarrow> Inl (Error ''Event start or end is missing''))"

section \<open>Blocked time\<close>

text \<open>
  The value \<open>JSON.parse\<close> returns. \<open>JSON.parse\<close> itself is a parameter of the model: a
  function from the text to the value, \<open>None\<close> when it throws a \<open>SyntaxError\<close>. A
  \<open>JObject\<close> lists the properties of the parsed object, each key once. Numbers are
  modelled as reals.
\<close>

datatype json =
  JNull | JBool bool | JNumber real | JString string | JArray "json list"
  | JObject "(string \<times> json) list"

record BlockedTime =
  bt_before :: "real option"
  bt_after :: "real option"

text \<open>Reading the property \<open>before\<close> or \<open>after\<close> of a parsed value: a \<open>TypeError\<close> on
  \<open>null\<close>, \<open>undefined\<close> on anything that is not an object with that property.\<close>

definition getProperty :: "json \<Rightarrow> string \<Rightarrow> js_error + json option" where
  "getProperty v key =
     (case v of
        JNull \<Rightarrow> Inl TypeError
      | JObject members \<Rightarrow> Inr (map_of members key)
      | _ \<Rightarrow> Inr None)"

text \<open>\<open>typeof x === "number" && x > 0\<close>.\<close>

definition positiveNumber :: "json option \<Rightarrow> real option" where
  "positiveNumber v =
     (case v of Some (JNumber x) \<Rightarrow> if x > 0 then Some x else None | _ \<Rightarrow> None)"

text \<open>
  The \<open>try\<close> block that both providers' \<open>parseBlockedTime\<close> end with, word for word the
  same in the two: parse the text, keep \<open>before\<close> and \<open>after\<close> when they are positive
  numbers, return the result when it has a key; every exception gives \<open>undefined\<close>.
\<close>

definition parseBlockedTimeData :: "(string \<Rightarrow> json option) \<Rightarrow> string \<Rightarrow> BlockedTime option" where
  "parseBlockedTimeData JSON_parse blockedTimeData =
     (case JSON_parse blockedTimeData of
        None \<Rightarrow> None
      | Some parsed \<Rightarrow>
          (case getProperty parsed ''before'' of
             Inl e \<Rightarrow> None
           | Inr before \<Rightarrow>
               (case getProperty parsed ''after'' of
                  Inl e \<Rightarrow> None
                | Inr after \<Rightarrow>
                    (let result = \<lparr> bt_before = positiveNumber before,
                                     bt_after = positiveNumber after \<rparr>
                     in if bt_before result \<noteq> None \<or> bt_after result \<noteq> None
                        then Some result else None))))"

section \<open>Google events\<close>

record GoogleEntryPoint =
  ept_entryPointType :: "string option"
  ept_uri :: "string option"
  ept_label :: "string option"
  ept_meetingCode :: "string option"
  ept_accessCode :: "string option"
  ept_password :: "string option"

record GoogleConferenceData =
  cd_conferenceId :: "string option"
  cd_conferenceSolutionName :: "string option"
  cd_entryPoints :: "GoogleEntryPoint list option"

record GoogleExtendedProperties =
  ep_private :: "(string \<rightharpoonup> string) option"
  ep_shared :: "(string \<rightharpoonup> string) option"

text \<open>The properties of the provider's event that the functions below read.
  \<open>ge_sourceUrl\<close> is \<open>source?.url\<close>, \<open>ge_gadgetLink\<close> is \<open>gadget?.link\<close>, and an
  attachment is given by its \<open>fileUrl\<close>.\<close>

record GoogleCalendarEvent =
  ge_start :: "GoogleCalendarDate option"
  ge_end :: "GoogleCalendarDate option"
  ge_description :: "string option"
  ge_location :: "string option"
  ge_attendees :: "GoogleCalendarEventAttendee list option"
  ge_conferenceData :: "GoogleConferenceData option"
  ge_hangoutLink :: "string option"
  ge_sourceUrl :: "string option"
  ge_attachments :: "string option list option"
  ge_gadgetLink :: "string option"
  ge_extendedProperties :: "GoogleExtendedProperties option"

text \<open>Google's \<open>parseBlockedTime\<close>. \<open>a || b\<close> is \<open>a\<close> when \<open>a\<close> is truthy and \<open>b\<close>
  otherwise.\<close>

definition parseBlockedTime :: "(string \<Rightarrow> json option) \<Rightarrow> GoogleCalendarEvent \<Rightarrow> BlockedTime option" where
  "parseBlockedTime JSON_parse event =
     (case ge_extendedProperties event of
        None \<Rightarrow> None
      | Some extendedProperties \<Rightarrow>
          if ep_private extendedProperties = None \<and> ep_shared extendedProperties = None then None
          else
            (let privateData =
                   (case ep_private extendedProperties of
                      None \<Rightarrow> None | Some m \<Rightarrow> m ''blockedTime'');
                 sharedData =
                   (case ep_shared extendedProperties of
                      None \<Rightarrow> None | Some m \<Rightarrow> m ''blockedTime'');
                 blockedTimeData = (if truthy_string privateData then privateData else sharedData)
             in if \<not> truthy_string blockedTimeData then None
                else parseBlockedTimeData JSON_parse (the blockedTimeData)))"

section \<open>Conference resolution\<close>

record ConferenceEntryPoint =
  cep_label :: "string option"
  cep_value :: string
  cep_meetingCode :: "string option"
  cep_accessCode :: "string option"
  cep_password :: "string option"

record Conference =
  c_id :: "string option"
  c_conferenceId :: "string option"
  c_name :: "string option"
  c_video :: "ConferenceEntryPoint option"
  c_sip :: "ConferenceEntryPoint option"
  c_phone :: "ConferenceEntryPoint list option"

text \<open>What \<open>detectMeetingLink\<close> of the package \<open>@analog/meeting-links\<close> returns for a
  link of a known meeting provider. The function is a parameter of the model.\<close>

record MeetingService =
  svc_id :: string
  svc_name :: string
  svc_joinUrl :: string

text \<open>
  \<open>extractUrls\<close>: every match, from left to right and without overlap, of the
  regular expression \<open>https?://\<close> followed by one or more characters that are neither
  white space nor an angle bracket, a quote, a brace, a bar, a backslash, a caret, a
  backquote or a square bracket, the letters of the scheme in either case.
  Characters are bytes here, so the white space of the expression is the one below 256.
\<close>

definition isWhiteSpace :: "char \<Rightarrow> bool" where
  "isWhiteSpace c = (of_char c \<in> set [9, 10, 11, 12, 13, 32, 160 :: nat])"

definition urlChar :: "char \<Rightarrow> bool" where
  "urlChar c =
     (\<not> isWhiteSpace c
      \<and> of_char c \<notin> set [60, 62, 34, 39, 123, 125, 124, 92, 94, 96, 91, 93 :: nat])"

definition toLower :: "char \<Rightarrow> char" where
  "toLower c =
     (if 65 \<le> (of_char c :: nat) \<and> (of_char c :: nat) \<le> 90
      then char_of (of_char c + 32 :: nat) else c)"

definition schemeLength :: "string \<Rightarrow> nat option" where
  "schemeLength text =
     (if map toLower (take 8 text) = ''https://'' then Some 8
      else if map toLower (take 7 text) = ''http://'' then Some 7
      else None)"

definition matchUrlAt :: "string \<Rightarrow> string option" where
  "matchUrlAt text =
     (case schemeLength text of
        None \<Rightarrow> None
      | Some k \<Rightarrow>
          (let rest = takeWhile urlChar (drop k text)
           in if rest = [] then None else Some (take k text @ rest)))"

text \<open>The scan of the global match: \<open>skip\<close> counts the characters of the last match
  that are still to be passed over.\<close>

fun scanUrls :: "nat \<Rightarrow> string \<Rightarrow> string list" where
  "scanUrls skip [] = []"
| "scanUrls (Suc skip) (c # cs) = scanUrls skip cs"
| "scanUrls 0 (c # cs) =
     (case matchUrlAt (c # cs) of
        None \<Rightarrow> scanUrls 0 cs
      | Some url \<Rightarrow> url # scanUrls (length url - 1) cs)"

definition extractUrls :: "string \<Rightarrow> string list" where
  "extractUrls text = scanUrls 0 text"

definition checkMeetingLink :: "(string \<Rightarrow> MeetingService option) \<Rightarrow> string \<Rightarrow> Conference option" where
  "checkMeetingLink detectMeetingLink url =
     (case detectMeetingLink url of
        Some service \<Rightarrow>
          Some \<lparr> c_id = Some (svc_id service),
                 c_conferenceId = None,
                 c_name = Some (svc_name service),
                 c_video = Some \<lparr> cep_label = None, cep_value = svc_joinUrl service,
                                  cep_meetingCode = Some (svc_id service),
                                  cep_accessCode = None, cep_password = None \<rparr>,
                 c_sip = None,
                 c_phone = None \<rparr>
      | None \<Rightarrow> None)"

text \<open>The loop \<open>for (const url of urls)\<close> that returns the first conference found.\<close>

fun firstMeetingLink :: "(string \<Rightarrow> MeetingService option) \<Rightarrow> string list \<Rightarrow> Conference option" where
  "firstMeetingLink detectMeetingLink [] = None"
| "firstMeetingLink detectMeetingLink (url # urls) =
     (case checkMeetingLink detectMeetingLink url of
        Some service \<Rightarrow> Some service
      | None \<Rightarrow> firstMeetingLink detectMeetingLink urls)"

text \<open>The loop over the attachments, which skips one with no \<open>fileUrl\<close>.\<close>

fun firstAttachmentLink :: "(string \<Rightarrow> MeetingService option) \<Rightarrow> string option list \<Rightarrow> Conference option" where
  "firstAttachmentLink detectMeetingLink [] = None"
| "firstAttachmentLink detectMeetingLink (fileUrl # attachments) =
     (if truthy_string fileUrl then
        (case checkMeetingLink detectMeetingLink (the fileUrl) of
           Some service \<Rightarrow> Some service
         | None \<Rightarrow> firstAttachmentLink detectMeetingLink attachments)
      else firstAttachmentLink detectMeetingLink attachments)"

text \<open>A field that is checked as a whole: \<open>if (field) { ... checkMeetingLink(field) }\<close>.\<close>

definition checkField :: "(string \<Rightarrow> MeetingService option) \<Rightarrow> string option \<Rightarrow> Conference option" where
  "checkField detectMeetingLink field =
     (if truthy_string field then checkMeetingLink detectMeetingLink (the field) else None)"

text \<open>A field whose URLs are checked: \<open>if (field) { for (const url of extractUrls(field)) ... }\<close>.\<close>

definition checkUrlsOf :: "(string \<Rightarrow> MeetingService option) \<Rightarrow> string option \<Rightarrow> Conference option" where
  "checkUrlsOf detectMeetingLink field =
     (if truthy_string field then firstMeetingLink detectMeetingLink (extractUrls (the field))
      else None)"

definition parseGoogleCalendarConferenceFallback ::
  "(string \<Rightarrow> MeetingService option) \<Rightarrow> GoogleCalendarEvent \<Rightarrow> Conference option" where
  "parseGoogleCalendarConferenceFallback detectMeetingLink event =
     (case checkField detectMeetingLink (ge_hangoutLink event) of
        Some service \<Rightarrow> Some service
      | None \<Rightarrow>
     (case checkUrlsOf detectMeetingLink (ge_description event) of
        Some service \<Rightarrow> Some service
      | None \<Rightarrow>
     (case checkUrlsOf detectMeetingLink (ge_location event) of
        Some service \<Rightarrow> Some service
      | None \<Rightarrow>
     (case checkField detectMeetingLink (ge_sourceUrl event) of
        Some service \<Rightarrow> Some service
      | None \<Rightarrow>
     (case (case ge_attachments event of
              None \<Rightarrow> None
            | Some attachments \<Rightarrow> firstAttachmentLink detectMeetingLink attachments) of
        Some service \<Rightarrow> Some service
      | None \<Rightarrow>
     (case checkField detectMeetingLink (ge_gadgetLink event) of
        Some service \<Rightarrow> Some service
      | None \<Rightarrow> None))))))"

text \<open>\<open>!event.conferenceData?.entryPoints?.length\<close>.\<close>

definition noEntryPoints :: "GoogleCalendarEvent \<Rightarrow> bool" where
  "noEntryPoints event =
     (case ge_conferenceData event of
        None \<Rightarrow> True
      | Some cd \<Rightarrow> (case cd_entryPoints cd of None \<Rightarrow> True | Some eps \<Rightarrow> eps = []))"

definition toConferenceEntryPoint :: "GoogleEntryPoint \<Rightarrow> ConferenceEntryPoint" where
  "toConferenceEntryPoint entryPoint =
     \<lparr> cep_label = ept_label entryPoint,
       cep_value = the (ept_uri entryPoint),
       cep_meetingCode = ept_meetingCode entryPoint,
       cep_accessCode = ept_accessCode entryPoint,
       cep_password = ept_password entryPoint \<rparr>"

text \<open>An entry point that is there and has a truthy \<open>uri\<close>.\<close>

definition withUri :: "GoogleEntryPoint option \<Rightarrow> GoogleEntryPoint option" where
  "withUri entryPoint =
     (case entryPoint of
        None \<Rightarrow> None
      | Some e \<Rightarrow> if truthy_string (ept_uri e) then Some e else None)"

definition parseGoogleCalendarConferenceData ::
  "(string \<Rightarrow> MeetingService option) \<Rightarrow> GoogleCalendarEvent \<Rightarrow> Conference option" where
  "parseGoogleCalendarConferenceData detectMeetingLink event =
     (if noEntryPoints event then parseGoogleCalendarConferenceFallback detectMeetingLink event
      else
        (let conferenceData = the (ge_conferenceData event);
             entryPoints = the (cd_entryPoints conferenceData);
             videoEntryPoint = find (\<lambda>e. ept_entryPointType e = Some ''video'') entryPoints;
             sipEntryPoint = find (\<lambda>e. ept_entryPointType e = Some ''sip'') entryPoints;
             phoneEntryPoints =
               filter (\<lambda>e. ept_entryPointType e = Some ''phone'' \<and> truthy_string (ept_uri e))
                 entryPoints
         in Some \<lparr> c_id =
                      (case withUri videoEntryPoint of
                         None \<Rightarrow> None
                       | Some e \<Rightarrow> map_option svc_id (detectMeetingLink (the (ept_uri e)))),
                    c_conferenceId = cd_conferenceId conferenceData,
                    c_name = cd_conferenceSolutionName conferenceData,
                    c_video = map_option toConferenceEntryPoint (withUri videoEntryPoint),
                    c_sip = map_option toConferenceEntryPoint (withUri sipEntryPoint),
                    c_phone =
                      (if phoneEntryPoints \<noteq> [] then Some (map toConferenceEntryPoint phoneEntryPoints)
                       else None) \<rparr>))"

section \<open>Microsoft events\<close>

record EmailAddress =
  ea_address :: "string option"
  ea_name :: "string option"

text \<open>An attendee of Microsoft Graph; \<open>ma_response\<close> is \<open>status?.response\<close>. The source
  asserts the type with \<open>attendee.type!\<close>, so the field is modelled as present.\<close>

record MicrosoftEventAttendee =
  ma_emailAddress :: "EmailAddress option"
  ma_type :: AttendeeType
  ma_response :: "MicrosoftResponseType option"

record SingleValueExtendedProperty =
  svp_id :: "string option"
  svp_value :: "string option"

text \<open>The properties of the provider's event that the functions below read;
  \<open>me_response\<close> is \<open>responseStatus?.response\<close>.\<close>

record MicrosoftEvent =
  me_start :: "MicrosoftDateTimeTimeZone option"
  me_end :: "MicrosoftDateTimeTimeZone option"
  me_isAllDay :: "bool option"
  me_attendees :: "MicrosoftEventAttendee list option"
  me_response :: "MicrosoftResponseType option"
  me_singleValueExtendedProperties :: "SingleValueExtendedProperty list option"

text \<open>\<open>parseMicrosoftAttendee\<close>: \<open>attendee.emailAddress!.address!\<close> throws a
  \<open>TypeError\<close> when there is no \<open>emailAddress\<close>.\<close>

definition parseMicrosoftAttendee :: "MicrosoftEventAttendee \<Rightarrow> js_error + Attendee" where
  "parseMicrosoftAttendee attendee =
     (case ma_emailAddress attendee of
        None \<Rightarrow> Inl TypeError
      | Some emailAddress \<Rightarrow>
          Inr \<lparr> a_id = None,
                a_email = ea_address emailAddress,
                a_name = ea_name emailAddress,
                a_status = parseMicrosoftAttendeeStatus (ma_response attendee),
                a_type = ma_type attendee,
                a_comment = None,
                a_organizer = None,
                a_additionalGuests = None \<rparr>)"

text \<open>\<open>attendees.map(parseMicrosoftAttendee)\<close>, which stops at the first exception.\<close>

fun parseMicrosoftAttendees :: "MicrosoftEventAttendee list \<Rightarrow> js_error + Attendee list" where
  "parseMicrosoftAttendees [] = Inr []"
| "parseMicrosoftAttendees (attendee # attendees) =
     (case parseMicrosoftAttendee attendee of
        Inl e \<Rightarrow> Inl e
      | Inr a \<Rightarrow>
          (case parseMicrosoftAttendees attendees of
             Inl e \<Rightarrow> Inl e
           | Inr rest \<Rightarrow> Inr (a # rest)))"

text \<open>Microsoft's \<open>parseResponseStatus\<close>.\<close>

definition parseResponseStatus_ms :: "MicrosoftEvent \<Rightarrow> AttendeeStatus option" where
  "parseResponseStatus_ms event =
     (let organizerIsAttendee =
            (case me_attendees event of
               None \<Rightarrow> False
             | Some attendees \<Rightarrow>
                 list_ex (\<lambda>attendee. ma_response attendee = Some MsOrganizer) attendees)
      in case me_attendees event of
           None \<Rightarrow> None
         | Some attendees \<Rightarrow>
             if \<not> organizerIsAttendee \<or> length attendees = 0 then None
             else
               (let hasOtherAttendees = (organizerIsAttendee \<and> length attendees > 1)
                in if \<not> hasOtherAttendees then None
                   else
                     (case me_response event of
                        Some response \<Rightarrow> Some (parseMicrosoftAttendeeStatus (Some response))
                      | None \<Rightarrow> None)))"

text \<open>\<open>String.prototype.includes\<close>.\<close>

fun startsWith :: "string \<Rightarrow> string \<Rightarrow> bool" where
  "startsWith s [] = True"
| "startsWith [] (p # ps) = False"
| "startsWith (c # cs) (p # ps) = (c = p \<and> startsWith cs ps)"

fun String_includes :: "string \<Rightarrow> string \<Rightarrow> bool" where
  "String_includes [] sub = (sub = [])"
| "String_includes (c # cs) sub = (startsWith (c # cs) sub \<or> String_includes cs sub)"

text \<open>Microsoft's \<open>parseBlockedTime\<close>: the first extended property whose \<open>id\<close> contains
  \<open>Name blockedTime\<close>, and its \<open>value\<close> when it is truthy.\<close>

definition findBlockedTimeProperty ::
  "SingleValueExtendedProperty list \<Rightarrow> SingleValueExtendedProperty option" where
  "findBlockedTimeProperty props =
     find (\<lambda>prop. truthy_string (svp_id prop)
                   \<and> String_includes (the (svp_id prop)) ''Name blockedTime'') props"

definition parseBlockedTime_ms :: "(string \<Rightarrow> json option) \<Rightarrow> MicrosoftEvent \<Rightarrow> BlockedTime option" where
  "parseBlockedTime_ms JSON_parse event =
     (case me_singleValueExtendedProperties event of
        None \<Rightarrow> None
      | Some props \<Rightarrow>
          (let blockedTimeProperty = findBlockedTimeProperty props;
               blockedTimeValue =
                 (case blockedTimeProperty of None \<Rightarrow> None | Some prop \<Rightarrow> svp_value prop)
           in if \<not> truthy_string blockedTimeValue then None
              else parseBlockedTimeData JSON_parse (the blockedTimeValue)))"

text \<open>
  The canonical event that \<open>parseMicrosoftEvent\<close> builds, with the fields the properties
  below are about: the dates, the attendees, the viewer's own response and the blocked
  time of the metadata. \<open>response\<close> is there when \<open>parseResponseStatus\<close> returned a
  status.
\<close>

record ResponseField =
  rf_status :: AttendeeStatus

record CalendarEvent =
  ev_start :: Temporal
  ev_end :: Temporal
  ev_allDay :: bool
  ev_attendees :: "Attendee list"
  ev_response :: "ResponseField option"
  ev_blockedTime :: "BlockedTime option"

definition parseMicrosoftEvent ::
  "TimeZones \<Rightarrow> (string \<Rightarrow> json option) \<Rightarrow> MicrosoftEvent \<Rightarrow> js_error + CalendarEvent" where
  "parseMicrosoftEvent tzs JSON_parse event =
     (if me_start event = None \<or> me_end event = None
      then Inl (Error ''Event start or end is missing'')
      else
        (let responseStatus = parseResponseStatus_ms event;
             blockedTime = parseBlockedTime_ms JSON_parse event
         in case parseMicrosoftEventDates tzs (me_start event) (me_end event) (me_isAllDay event) of
              Inl e \<Rightarrow> Inl e
            | Inr dates \<Rightarrow>
                (case (case me_attendees event of
                         None \<Rightarrow> Inr []
                       | Some attendees \<Rightarrow> parseMicrosoftAttendees attendees) of
                   Inl e \<Rightarrow> Inl e
                 | Inr attendees \<Rightarrow>
                     Inr \<lparr> ev_start = pd_start dates,
                           ev_end = pd_end dates,
                           ev_allDay = pd_allDay dates,
                           ev_attendees = attendees,
                           ev_response =
                             (case responseStatus of
                                None \<Rightarrow> None
                              | Some status \<Rightarrow> Some \<lparr> rf_status = status \<rparr>),
                           ev_blockedTime = blockedTime \<rparr>)))"

section \<open>Microsoft provider operations\<close>

record EventResponse =
  er_status :: AttendeeStatus
  er_comment :: "string option"
  er_sendUpdate :: bool

text \<open>The fields of \<open>UpdateEventInput\<close> that \<open>toMicrosoftEvent\<close> and \<open>updateEvent\<close> read;
  the two zone fields are those of the Microsoft metadata.\<close>

record UpdateEventInput =
  in_title :: "string option"
  in_description :: "string option"
  in_location :: "string option"
  in_start :: Temporal
  in_end :: Temporal
  in_allDay :: "bool option"
  in_originalStartTimeZone :: "OriginalTimeZone option"
  in_originalEndTimeZone :: "OriginalTimeZone option"
  in_response :: "EventResponse option"

text \<open>The event \<open>toMicrosoftEvent\<close> sends, without the extended property of the blocked
  time (its key holds a random identifier).\<close>

record MicrosoftEventPayload =
  mp_subject :: "string option"
  mp_body :: "string option"
  mp_start :: MicrosoftDateTimeTimeZone
  mp_end :: MicrosoftDateTimeTimeZone
  mp_isAllDay :: bool
  mp_location :: "string option"

definition toMicrosoftEvent :: "TimeZones \<Rightarrow> UpdateEventInput \<Rightarrow> MicrosoftEventPayload" where
  "toMicrosoftEvent tzs event =
     \<lparr> mp_subject = in_title event,
       mp_body = (if truthy_string (in_description event) then in_description event else None),
       mp_start = toMicrosoftDate tzs (in_start event) (in_originalStartTimeZone event),
       mp_end = toMicrosoftDate tzs (in_end event) (in_originalEndTimeZone event),
       mp_isAllDay = (case in_allDay event of None \<Rightarrow> False | Some b \<Rightarrow> b),
       mp_location = (if truthy_string (in_location event) then in_location event else None) \<rparr>"

text \<open>\<open>eventResponseStatusPath\<close>; its last line throws for any other status.\<close>

definition eventResponseStatusPath :: "AttendeeStatus \<Rightarrow> js_error + string" where
  "eventResponseStatusPath status =
     (if status = Accepted then Inr ''accept''
      else if status = Tentative then Inr ''tentativelyAccept''
      else if status = Declined then Inr ''decline''
      else Inl (Error ''Invalid status''))"

text \<open>
  The Graph client is modelled by the requests it is asked to send. A request has a
  method, a path and a body; the client is a function that gives each request its outcome,
  an exception or the event of the response. An operation returns the requests it issued,
  in order, and its result; \<open>withErrorHandler\<close> turns an exception into a
  \<open>ProviderError\<close> that carries the name of the operation.
\<close>

datatype HttpMethod = PATCH | POST

datatype GraphBody = EventBody MicrosoftEventPayload | ResponseBody "string option" bool

record GraphRequest =
  rq_method :: HttpMethod
  rq_path :: string
  rq_body :: GraphBody

record ProviderError =
  pe_cause :: js_error
  pe_operation :: string

definition withErrorHandler :: "string \<Rightarrow> js_error + 'a \<Rightarrow> ProviderError + 'a" where
  "withErrorHandler operation r =
     (case r of
        Inl e \<Rightarrow> Inl \<lparr> pe_cause = e, pe_operation = operation \<rparr>
      | Inr v \<Rightarrow> Inr v)"

text \<open>
  \<open>MicrosoftCalendarProvider.updateEvent\<close>: the update of the event, then the submission
  of the response when the input carries one whose status is not \<open>unknown\<close>.
  \<open>calendarPath\<close> of \<open>microsoft-calendar/calendars\<close> is a parameter.
\<close>

definition updateEvent ::
  "(GraphRequest \<Rightarrow> js_error + MicrosoftEvent) \<Rightarrow> TimeZones \<Rightarrow> (string \<Rightarrow> json option)
     \<Rightarrow> (string \<Rightarrow> string) \<Rightarrow> string \<Rightarrow> string \<Rightarrow> UpdateEventInput
     \<Rightarrow> GraphRequest list \<times> (ProviderError + CalendarEvent)" where
  "updateEvent graphClient tzs JSON_parse calendarPath calendarId eventId event =
     (let patch = \<lparr> rq_method = PATCH,
                     rq_path = calendarPath calendarId @ ''/events/'' @ eventId,
                     rq_body = EventBody (toMicrosoftEvent tzs event) \<rparr>
      in case graphClient patch of
           Inl e \<Rightarrow> ([patch], withErrorHandler ''updateEvent'' (Inl e))
         | Inr updatedEvent \<Rightarrow>
             (case in_response event of
                None \<Rightarrow>
                  ([patch],
                   withErrorHandler ''updateEvent'' (parseMicrosoftEvent tzs JSON_parse updatedEvent))
              | Some response \<Rightarrow>
                  if er_status response \<noteq> Unknown then
                    (case eventResponseStatusPath (er_status response) of
                       Inl e \<Rightarrow> ([patch], withErrorHandler ''updateEvent'' (Inl e))
                     | Inr path \<Rightarrow>
                         (let post = \<lparr> rq_method = POST,
                                        rq_path = ''/me/events/'' @ eventId @ ''/'' @ path,
                                        rq_body = ResponseBody (er_comment response)
                                                    (er_sendUpdate response) \<rparr>
                          in case graphClient post of
                               Inl e \<Rightarrow> ([patch, post], withErrorHandler ''updateEvent'' (Inl e))
                             | Inr r \<Rightarrow>
                                 ([patch, post],
                                  withErrorHandler ''updateEvent''
                                    (parseMicrosoftEvent tzs JSON_parse updatedEvent))))
                  else
                    ([patch],
                     withErrorHandler ''updateEvent''
                       (parseMicrosoftEvent tzs JSON_parse updatedEvent))))"

text \<open>\<open>MicrosoftCalendarProvider.responseToEvent\<close>: nothing is sent for the status
  \<open>unknown\<close>.\<close>

definition responseToEvent ::
  "(GraphRequest \<Rightarrow> js_error + MicrosoftEvent) \<Rightarrow> string \<Rightarrow> string \<Rightarrow> EventResponse
     \<Rightarrow> GraphRequest list \<times> (ProviderError + unit)" where
  "responseToEvent graphClient calendarId eventId response =
     (if er_status response = Unknown then ([], Inr ())
      else
        (case eventResponseStatusPath (er_status response) of
           Inl e \<Rightarrow> ([], withErrorHandler ''responseToEvent'' (Inl e))
         | Inr path \<Rightarrow>
             (let post = \<lparr> rq_method = POST,
                            rq_path = ''/me/events/'' @ eventId @ ''/'' @ path,
                            rq_body = ResponseBody (er_comment response) (er_sendUpdate response) \<rparr>
              in case graphClient post of
                   Inl e \<Rightarrow> ([post], withErrorHandler ''responseToEvent'' (Inl e))
                 | Inr r \<Rightarrow> ([post], Inr ()))))"

section \<open>The specification's terms\<close>

text \<open>The zone string \<open>toMicrosoftDate\<close> emits for a zoned date-time: the raw string of
  the provenance when its parsed identifier is the value's zone, the value's zone
  otherwise.\<close>

definition emittedZone :: "string \<Rightarrow> OriginalTimeZone option \<Rightarrow> string" where
  "emittedZone tz originalTimeZone =
     (case originalTimeZone of
        None \<Rightarrow> tz
      | Some orig \<Rightarrow> if otz_parsed orig = Some tz then otz_raw orig else tz)"

text \<open>
  The fields the fallback scans, in the order of the specification (4.6): the hangout
  link, the URLs of the description, the URLs of the location, the source URL, the file
  URL of each attachment, the gadget link. An absent or empty field contributes nothing.
\<close>

definition fieldCandidate :: "string option \<Rightarrow> string list" where
  "fieldCandidate field = (if truthy_string field then [the field] else [])"

definition urlCandidates :: "string option \<Rightarrow> string list" where
  "urlCandidates field = (if truthy_string field then extractUrls (the field) else [])"

definition conferenceCandidates :: "GoogleCalendarEvent \<Rightarrow> string list" where
  "conferenceCandidates event =
     fieldCandidate (ge_hangoutLink event)
     @ urlCandidates (ge_description event)
     @ urlCandidates (ge_location event)
     @ fieldCandidate (ge_sourceUrl event)
     @ (case ge_attachments event of
          None \<Rightarrow> []
        | Some attachments \<Rightarrow> concat (map fieldCandidate attachments))
     @ fieldCandidate (ge_gadgetLink event)"

definition emptyConference :: Conference where
  "emptyConference =
     \<lparr> c_id = None, c_conferenceId = None, c_name = None, c_video = None, c_sip = None,
       c_phone = None \<rparr>"

section \<open>Sample values\<close>

text \<open>
  Two zones besides UTC: \<open>Europe/Berlin\<close>, one hour ahead of it, which the provider
  also calls \<open>W. Europe Standard Time\<close>, and \<open>Africa/Monrovia\<close>, 44 minutes and 30
  seconds behind it (its offset in 1970).
\<close>

definition sampleOffset :: "string \<Rightarrow> int" where
  "sampleOffset tz = (if tz = ''Africa/Monrovia'' then - 2670000000000 else 3600000000000)"

definition sampleZones :: TimeZones where
  "sampleZones =
     \<lparr> tz_known = (\<lambda>tz. tz = ''Europe/Berlin'' \<or> tz = ''Africa/Monrovia''),
       tz_offset = (\<lambda>tz n. sampleOffset tz),
       tz_instantFor = (\<lambda>tz w. w - sampleOffset tz),
       tz_parseTimeZone =
         (\<lambda>timeZone.
            if timeZone = ''Europe/Berlin'' \<or> timeZone = ''W. Europe Standard Time''
            then Some ''Europe/Berlin''
            else if timeZone = ''Africa/Monrovia'' then Some ''Africa/Monrovia''
            else None) \<rparr>"

text \<open>The text of a blocked-time window, \<open>{"before":b,"after":a}\<close>, and a \<open>JSON.parse\<close>
  that reads the two windows of the specification and throws on every other text.\<close>

definition quoted :: "string \<Rightarrow> string" where
  "quoted s = CHR 0x22 # s @ [CHR 0x22]"

definition windowText :: "string \<Rightarrow> string \<Rightarrow> string" where
  "windowText b a =
     ''{'' @ quoted ''before'' @ '':'' @ b @ '','' @ quoted ''after'' @ '':'' @ a @ ''}''"

definition window :: "real \<Rightarrow> real \<Rightarrow> json" where
  "window b a = JObject [(''before'', JNumber b), (''after'', JNumber a)]"

definition sampleJsonParse :: "string \<Rightarrow> json option" where
  "sampleJsonParse text =
     (if text = windowText ''-1'' ''15'' then Some (window (-1) 15)
      else if text = windowText ''0'' ''0'' then Some (window 0 0)
      else None)"

text \<open>A \<open>detectMeetingLink\<close> that knows one link of each of two providers.\<close>

definition sampleDetect :: "string \<Rightarrow> MeetingService option" where
  "sampleDetect url =
     (if url = ''https://meet.google.com/abc-defg-hij''
      then Some \<lparr> svc_id = ''abc-defg-hij'', svc_name = ''Google Meet'',
                   svc_joinUrl = ''https://meet.google.com/abc-defg-hij'' \<rparr>
      else if url = ''https://zoom.us/j/123''
      then Some \<lparr> svc_id = ''123'', svc_name = ''Zoom'', svc_joinUrl = ''https://zoom.us/j/123'' \<rparr>
      else None)"

definition sampleGoogleEvent :: GoogleCalendarEvent where
  "sampleGoogleEvent =
     \<lparr> ge_start = None, ge_end = None, ge_description = None, ge_location = None,
       ge_attendees = None, ge_conferenceData = None, ge_hangoutLink = None,
       ge_sourceUrl = None, ge_attachments = None, ge_gadgetLink = None,
       ge_extendedProperties = None \<rparr>"

definition sampleGoogleAttendee :: "string \<Rightarrow> bool option \<Rightarrow> GoogleCalendarEventAttendee" where
  "sampleGoogleAttendee email organizer =
     \<lparr> ga_id = None, ga_email = Some email, ga_displayName = None, ga_optional = None,
       ga_resource = None, ga_responseStatus = GAccepted, ga_comment = None,
       ga_additionalGuests = None, ga_self = None, ga_organizer = organizer \<rparr>"

definition sampleMicrosoftAttendee :: "string \<Rightarrow> MicrosoftResponseType \<Rightarrow> MicrosoftEventAttendee" where
  "sampleMicrosoftAttendee email response =
     \<lparr> ma_emailAddress = Some \<lparr> ea_address = Some email, ea_name = None \<rparr>,
       ma_type = Required, ma_response = Some response \<rparr>"

text \<open>An all-day Microsoft event, on 2024-03-01 (day 19783 after 1970-01-01).\<close>

definition sampleMicrosoftEvent :: MicrosoftEvent where
  "sampleMicrosoftEvent =
     \<lparr> me_start = Some \<lparr> ms_dateTime = Some (DateText 19783), ms_timeZone = Some ''UTC'' \<rparr>,
       me_end = Some \<lparr> ms_dateTime = Some (DateText 19784), ms_timeZone = Some ''UTC'' \<rparr>,
       me_isAllDay = Some True, me_attendees = None, me_response = None,
       me_singleValueExtendedProperties = None \<rparr>"

definition sampleInput :: UpdateEventInput where
  "sampleInput =
     \<lparr> in_title = Some ''Review'', in_description = None, in_location = None,
       in_start = ZonedDateTime 0 ''UTC'', in_end = ZonedDateTime 3600000000000 ''UTC'',
       in_allDay = None, in_originalStartTimeZone = None, in_originalEndTimeZone = None,
       in_response = None \<rparr>"

definition sampleClient :: "GraphRequest \<Rightarrow> js_error + MicrosoftEvent" where
  "sampleClient request = Inr sampleMicrosoftEvent"

definition sampleCalendarPath :: "string \<Rightarrow> string" where
  "sampleCalendarPath calendarId = ''/me/calendars/'' @ calendarId"

text \<open>Events that carry a blocked-time text: Google in the private extended properties
  (and, for the second, another in the shared ones), Microsoft in a single-value extended
  property.\<close>

definition googleEventWithBlockedTime :: "string \<Rightarrow> GoogleCalendarEvent" where
  "googleEventWithBlockedTime s =
     sampleGoogleEvent
       \<lparr> ge_extendedProperties :=
           Some \<lparr> ep_private = Some [''blockedTime'' \<mapsto> s], ep_shared = None \<rparr> \<rparr>"

definition googleEventWithBoth :: "string \<Rightarrow> string \<Rightarrow> GoogleCalendarEvent" where
  "googleEventWithBoth s t =
     sampleGoogleEvent
       \<lparr> ge_extendedProperties :=
           Some \<lparr> ep_private = Some [''blockedTime'' \<mapsto> s],
                  ep_shared = Some [''blockedTime'' \<mapsto> t] \<rparr> \<rparr>"

definition microsoftEventWithBlockedTime :: "string \<Rightarrow> MicrosoftEvent" where
  "microsoftEventWithBlockedTime s =
     sampleMicrosoftEvent
       \<lparr> me_singleValueExtendedProperties :=
           Some [\<lparr> svp_id = Some ''String {66f5a359-4659-4830-9070-00047ec6ac6e} Name blockedTime'',
                   svp_value = Some s \<rparr>] \<rparr>"

section \<open>Properties\<close>

subsection \<open>Attendee status\<close>

text \<open>
  Claim C8. The attendee status \<open>unknown\<close> round-trips: it serializes to Google's
  \<open>needsAction\<close>, which parses back to \<open>unknown\<close>, and each of Microsoft's
  \<open>notResponded\<close> and \<open>none\<close> parses to \<open>unknown\<close>.
\<close>

theorem unknown_status_roundtrip:
  "toGoogleCalenderResponseStatus Unknown = GNeedsAction
   \<and> parseGoogleCalendarAttendeeStatus GNeedsAction = Unknown
   \<and> parseGoogleCalendarAttendeeStatus (toGoogleCalenderResponseStatus Unknown) = Unknown
   \<and> parseMicrosoftAttendeeStatus (Some MsNotResponded) = Unknown
   \<and> parseMicrosoftAttendeeStatus (Some MsNone) = Unknown"
  by (simp add: parseMicrosoftAttendeeStatus_def)

subsection \<open>Organizer first\<close>

lemma findIndex_None: "findIndex p xs = None \<longleftrightarrow> (\<forall>x\<in>set xs. \<not> p x)"
  by (induction xs) auto

lemma findIndex_first:
  "k < length xs \<Longrightarrow> p (xs ! k) \<Longrightarrow> (\<forall>j<k. \<not> p (xs ! j)) \<Longrightarrow> findIndex p xs = Some k"
proof (induction xs arbitrary: k)
  case Nil
  then show ?case by simp
next
  case (Cons x xs)
  show ?case
  proof (cases k)
    case 0
    with Cons.prems show ?thesis by simp
  next
    case (Suc n)
    with Cons.prems have "\<not> p x" by auto
    moreover have "findIndex p xs = Some n"
    proof (rule Cons.IH)
      show "n < length xs" using Cons.prems Suc by simp
      show "p (xs ! n)" using Cons.prems Suc by simp
      show "\<forall>j<n. \<not> p (xs ! j)"
      proof (intro allI impI)
        fix j assume "j < n"
        then have "Suc j < k" using Suc by simp
        with Cons.prems have "\<not> p ((x # xs) ! Suc j)" by blast
        then show "\<not> p (xs ! j)" by simp
      qed
    qed
    ultimately show ?thesis using Suc by simp
  qed
qed

text \<open>
  Claim C4, as amended. When the first organizer-flagged attendee of the mapped list
  stands at an index \<open>k > 0\<close>, the result is that attendee followed by all the others in
  their original order; when the attendee at index 0 is flagged, or no attendee is, the
  result is the mapped list itself. A flagged attendee that follows another flagged one
  is not moved.
\<close>

theorem attendee_list_organizer_first:
  "(\<forall>k. 0 < k \<and> k < length attendees
        \<and> truthy_bool (a_organizer (map parseGoogleCalendarAttendee attendees ! k))
        \<and> (\<forall>j<k. \<not> truthy_bool (a_organizer (map parseGoogleCalendarAttendee attendees ! j)))
      \<longrightarrow> parseGoogleCalendarAttendeeList attendees =
            map parseGoogleCalendarAttendee attendees ! k
              # (take k (map parseGoogleCalendarAttendee attendees)
                  @ drop (Suc k) (map parseGoogleCalendarAttendee attendees)))
   \<and> ((attendees \<noteq> [] \<and> truthy_bool (a_organizer (map parseGoogleCalendarAttendee attendees ! 0)))
        \<or> (\<forall>a \<in> set (map parseGoogleCalendarAttendee attendees). \<not> truthy_bool (a_organizer a))
      \<longrightarrow> parseGoogleCalendarAttendeeList attendees = map parseGoogleCalendarAttendee attendees)"
proof (intro conjI allI impI)
  fix k
  let ?m = "map parseGoogleCalendarAttendee attendees"
  let ?p = "\<lambda>attendee. truthy_bool (a_organizer attendee)"
  assume h: "0 < k \<and> k < length attendees \<and> ?p (?m ! k) \<and> (\<forall>j<k. \<not> ?p (?m ! j))"
  then have "findIndex ?p ?m = Some k"
    using findIndex_first [where xs = ?m and p = ?p and k = k] by auto
  with h show "parseGoogleCalendarAttendeeList attendees = ?m ! k # (take k ?m @ drop (Suc k) ?m)"
    by (simp add: parseGoogleCalendarAttendeeList_def Let_def)
next
  let ?m = "map parseGoogleCalendarAttendee attendees"
  let ?p = "\<lambda>attendee. truthy_bool (a_organizer attendee)"
  assume "(attendees \<noteq> [] \<and> ?p (?m ! 0)) \<or> (\<forall>a \<in> set ?m. \<not> ?p a)"
  then show "parseGoogleCalendarAttendeeList attendees = ?m"
  proof
    assume a: "attendees \<noteq> [] \<and> ?p (?m ! 0)"
    then have "findIndex ?p ?m = Some 0"
      using findIndex_first [where xs = ?m and p = ?p and k = 0] by auto
    then show ?thesis by (simp add: parseGoogleCalendarAttendeeList_def Let_def)
  next
    assume "\<forall>a \<in> set ?m. \<not> ?p a"
    then have "findIndex ?p ?m = None" by (simp only: findIndex_None)
    then show ?thesis by (simp add: parseGoogleCalendarAttendeeList_def Let_def)
  qed
qed

theorem attendee_list_organizer_first_witness:
  "parseGoogleCalendarAttendeeList
     [sampleGoogleAttendee ''a@x.org'' None, sampleGoogleAttendee ''b@x.org'' (Some False),
      sampleGoogleAttendee ''c@x.org'' (Some True), sampleGoogleAttendee ''d@x.org'' None]
   = map parseGoogleCalendarAttendee
      [sampleGoogleAttendee ''c@x.org'' (Some True), sampleGoogleAttendee ''a@x.org'' None,
       sampleGoogleAttendee ''b@x.org'' (Some False), sampleGoogleAttendee ''d@x.org'' None]
   \<and> parseGoogleCalendarAttendeeList
       [sampleGoogleAttendee ''c@x.org'' (Some True), sampleGoogleAttendee ''a@x.org'' None]
     = map parseGoogleCalendarAttendee
        [sampleGoogleAttendee ''c@x.org'' (Some True), sampleGoogleAttendee ''a@x.org'' None]
   \<and> parseGoogleCalendarAttendeeList
       [sampleGoogleAttendee ''a@x.org'' None, sampleGoogleAttendee ''b@x.org'' (Some False)]
     = map parseGoogleCalendarAttendee
        [sampleGoogleAttendee ''a@x.org'' None, sampleGoogleAttendee ''b@x.org'' (Some False)]"
proof (intro conjI)
  let ?a = "sampleGoogleAttendee ''a@x.org'' None"
  let ?b = "sampleGoogleAttendee ''b@x.org'' (Some False)"
  let ?c = "sampleGoogleAttendee ''c@x.org'' (Some True)"
  let ?d = "sampleGoogleAttendee ''d@x.org'' None"
  have flags:
    "\<not> truthy_bool (a_organizer (parseGoogleCalendarAttendee ?a))"
    "\<not> truthy_bool (a_organizer (parseGoogleCalendarAttendee ?b))"
    "truthy_bool (a_organizer (parseGoogleCalendarAttendee ?c))"
    "\<not> truthy_bool (a_organizer (parseGoogleCalendarAttendee ?d))"
    by (simp_all add: parseGoogleCalendarAttendee_def sampleGoogleAttendee_def truthy_bool_def)
  have before: "\<forall>j<2. \<not> truthy_bool (a_organizer (map parseGoogleCalendarAttendee [?a, ?b, ?c, ?d] ! j))"
    using flags by (simp add: less_Suc_eq numeral_2_eq_2)
  show "parseGoogleCalendarAttendeeList [?a, ?b, ?c, ?d]
          = map parseGoogleCalendarAttendee [?c, ?a, ?b, ?d]"
    using attendee_list_organizer_first [of "[?a, ?b, ?c, ?d]", THEN conjunct1, THEN spec, of 2]
      flags before
    by simp
  show "parseGoogleCalendarAttendeeList [?c, ?a] = map parseGoogleCalendarAttendee [?c, ?a]"
    using attendee_list_organizer_first [of "[?c, ?a]", THEN conjunct2] flags by simp
  show "parseGoogleCalendarAttendeeList [?a, ?b] = map parseGoogleCalendarAttendee [?a, ?b]"
    using attendee_list_organizer_first [of "[?a, ?b]", THEN conjunct2] flags by simp
qed

theorem second_organizer_counterexample:
  "truthy_bool (a_organizer (map parseGoogleCalendarAttendee
      [sampleGoogleAttendee ''a@x.org'' None, sampleGoogleAttendee ''b@x.org'' (Some True),
       sampleGoogleAttendee ''c@x.org'' None, sampleGoogleAttendee ''d@x.org'' (Some True)] ! 3))
   \<and> parseGoogleCalendarAttendeeList
       [sampleGoogleAttendee ''a@x.org'' None, sampleGoogleAttendee ''b@x.org'' (Some True),
        sampleGoogleAttendee ''c@x.org'' None, sampleGoogleAttendee ''d@x.org'' (Some True)]
     = map parseGoogleCalendarAttendee
        [sampleGoogleAttendee ''b@x.org'' (Some True), sampleGoogleAttendee ''a@x.org'' None,
         sampleGoogleAttendee ''c@x.org'' None, sampleGoogleAttendee ''d@x.org'' (Some True)]
   \<and> parseGoogleCalendarAttendeeList
       [sampleGoogleAttendee ''a@x.org'' None, sampleGoogleAttendee ''b@x.org'' (Some True),
        sampleGoogleAttendee ''c@x.org'' None, sampleGoogleAttendee ''d@x.org'' (Some True)] ! 0
     \<noteq> map parseGoogleCalendarAttendee
        [sampleGoogleAttendee ''a@x.org'' None, sampleGoogleAttendee ''b@x.org'' (Some True),
         sampleGoogleAttendee ''c@x.org'' None, sampleGoogleAttendee ''d@x.org'' (Some True)] ! 3"
  by (simp add: parseGoogleCalendarAttendeeList_def parseGoogleCalendarAttendee_def
      sampleGoogleAttendee_def truthy_bool_def Let_def)

subsection \<open>The viewer's response of a Microsoft event\<close>

lemma parseResponseStatus_Some:
  "parseResponseStatus_ms event = Some status \<Longrightarrow>
   \<exists>attendees. me_attendees event = Some attendees
      \<and> list_ex (\<lambda>a. ma_response a = Some MsOrganizer) attendees \<and> 1 < length attendees"
  by (auto simp: parseResponseStatus_ms_def Let_def split: option.splits if_splits)

lemma parseMicrosoftEvent_response:
  "parseMicrosoftEvent tzs JSON_parse event = Inr ev \<Longrightarrow>
   ev_response ev = map_option (\<lambda>status. \<lparr> rf_status = status \<rparr>) (parseResponseStatus_ms event)"
  by (auto simp: parseMicrosoftEvent_def Let_def split: if_splits sum.splits option.splits)

text \<open>
  Claim C5. The canonical event \<open>parseMicrosoftEvent\<close> returns has a response only when
  the attendees of the event include one whose status response is \<open>organizer\<close> and there
  is more than one attendee. With no attendee list, an empty one, a single attendee, or
  no organizer among the attendees, the response is omitted.
\<close>

theorem response_only_with_organizer_and_others:
  "(\<forall>ev. parseMicrosoftEvent tzs JSON_parse event = Inr ev \<and> ev_response ev \<noteq> None \<longrightarrow>
      (\<exists>attendees. me_attendees event = Some attendees
         \<and> list_ex (\<lambda>a. ma_response a = Some MsOrganizer) attendees
         \<and> 1 < length attendees))
   \<and> (\<forall>ev. parseMicrosoftEvent tzs JSON_parse event = Inr ev
         \<and> (me_attendees event = None
             \<or> me_attendees event = Some []
             \<or> (\<exists>a. me_attendees event = Some [a])
             \<or> (\<exists>attendees. me_attendees event = Some attendees
                   \<and> \<not> list_ex (\<lambda>a. ma_response a = Some MsOrganizer) attendees))
       \<longrightarrow> ev_response ev = None)"
proof (intro conjI allI impI)
  fix ev
  assume h: "parseMicrosoftEvent tzs JSON_parse event = Inr ev \<and> ev_response ev \<noteq> None"
  then obtain status where "parseResponseStatus_ms event = Some status"
    using parseMicrosoftEvent_response [of tzs JSON_parse event ev] by auto
  then show "\<exists>attendees. me_attendees event = Some attendees
         \<and> list_ex (\<lambda>a. ma_response a = Some MsOrganizer) attendees
         \<and> 1 < length attendees"
    by (rule parseResponseStatus_Some)
next
  fix ev
  assume h: "parseMicrosoftEvent tzs JSON_parse event = Inr ev
         \<and> (me_attendees event = None
             \<or> me_attendees event = Some []
             \<or> (\<exists>a. me_attendees event = Some [a])
             \<or> (\<exists>attendees. me_attendees event = Some attendees
                   \<and> \<not> list_ex (\<lambda>a. ma_response a = Some MsOrganizer) attendees))"
  have "parseResponseStatus_ms event = None"
  proof (cases "parseResponseStatus_ms event")
    case None
    then show ?thesis .
  next
    case (Some status)
    from parseResponseStatus_Some [OF this] h show ?thesis by auto
  qed
  with h show "ev_response ev = None"
    using parseMicrosoftEvent_response [of tzs JSON_parse event ev] by simp
qed

lemma sample_meeting_parsed:
  assumes "attendees = [] \<or> attendees = [sampleMicrosoftAttendee e1 r1]
      \<or> attendees = [sampleMicrosoftAttendee e1 r1, sampleMicrosoftAttendee e2 r2]"
  shows "\<exists>ev. parseMicrosoftEvent sampleZones sampleJsonParse
          (sampleMicrosoftEvent \<lparr> me_attendees := Some attendees, me_response := response \<rparr>)
        = Inr ev"
  using assms
  by (auto simp: parseMicrosoftEvent_def sampleMicrosoftEvent_def sampleMicrosoftAttendee_def
      parseMicrosoftEventDates_def parseDate_ms_def parseMicrosoftAttendee_def
      truthy_bool_def Let_def)

theorem response_only_with_organizer_and_others_witness:
  "(\<exists>ev. parseMicrosoftEvent sampleZones sampleJsonParse
            (sampleMicrosoftEvent
               \<lparr> me_attendees := Some [sampleMicrosoftAttendee ''a@x.org'' MsOrganizer,
                                        sampleMicrosoftAttendee ''b@x.org'' MsAccepted],
                 me_response := Some MsTentativelyAccepted \<rparr>) = Inr ev
         \<and> ev_response ev = Some \<lparr> rf_status = Tentative \<rparr>
         \<and> (\<exists>attendees.
               me_attendees
                 (sampleMicrosoftEvent
                    \<lparr> me_attendees := Some [sampleMicrosoftAttendee ''a@x.org'' MsOrganizer,
                                             sampleMicrosoftAttendee ''b@x.org'' MsAccepted],
                      me_response := Some MsTentativelyAccepted \<rparr>) = Some attendees
               \<and> list_ex (\<lambda>a. ma_response a = Some MsOrganizer) attendees
               \<and> 1 < length attendees))
   \<and> (\<exists>ev. parseMicrosoftEvent sampleZones sampleJsonParse
            (sampleMicrosoftEvent
               \<lparr> me_attendees := Some [sampleMicrosoftAttendee ''a@x.org'' MsOrganizer],
                 me_response := Some MsOrganizer \<rparr>) = Inr ev
         \<and> ev_response ev = None)"
proof (intro conjI)
  let ?lone = "sampleMicrosoftEvent
               \<lparr> me_attendees := Some [sampleMicrosoftAttendee ''a@x.org'' MsOrganizer],
                 me_response := Some MsOrganizer \<rparr>"
  obtain ev where ev: "parseMicrosoftEvent sampleZones sampleJsonParse ?lone = Inr ev"
    using sample_meeting_parsed [of "[sampleMicrosoftAttendee ''a@x.org'' MsOrganizer]"
        "''a@x.org''" MsOrganizer]
    by blast
  have "ev_response ev = None"
    using response_only_with_organizer_and_others
      [of sampleZones sampleJsonParse ?lone, THEN conjunct2, THEN spec, of ev] ev
    by simp
  with ev show "\<exists>ev. parseMicrosoftEvent sampleZones sampleJsonParse ?lone = Inr ev
      \<and> ev_response ev = None"
    by blast
next
  let ?two = "sampleMicrosoftEvent
               \<lparr> me_attendees := Some [sampleMicrosoftAttendee ''a@x.org'' MsOrganizer,
                                        sampleMicrosoftAttendee ''b@x.org'' MsAccepted],
                 me_response := Some MsTentativelyAccepted \<rparr>"
  obtain ev where ev: "parseMicrosoftEvent sampleZones sampleJsonParse ?two = Inr ev"
    using sample_meeting_parsed [of "[sampleMicrosoftAttendee ''a@x.org'' MsOrganizer,
        sampleMicrosoftAttendee ''b@x.org'' MsAccepted]" "''a@x.org''" MsOrganizer
        "''b@x.org''" MsAccepted]
    by blast
  have r: "ev_response ev = Some \<lparr> rf_status = Tentative \<rparr>"
    using parseMicrosoftEvent_response [OF ev]
    by (simp add: parseResponseStatus_ms_def sampleMicrosoftAttendee_def
        parseMicrosoftAttendeeStatus_def)
  have "\<exists>attendees. me_attendees ?two = Some attendees
      \<and> list_ex (\<lambda>a. ma_response a = Some MsOrganizer) attendees \<and> 1 < length attendees"
    using response_only_with_organizer_and_others
      [of sampleZones sampleJsonParse ?two, THEN conjunct1, THEN spec, of ev] ev r
    by simp
  with ev r show "\<exists>ev. parseMicrosoftEvent sampleZones sampleJsonParse ?two = Inr ev
      \<and> ev_response ev = Some \<lparr> rf_status = Tentative \<rparr>
      \<and> (\<exists>attendees. me_attendees ?two = Some attendees
            \<and> list_ex (\<lambda>a. ma_response a = Some MsOrganizer) attendees
            \<and> 1 < length attendees)"
    by blast
qed

subsection \<open>Response submission\<close>

text \<open>
  Claim C9. A response whose status is \<open>unknown\<close>, or no response at all, never
  triggers the submission of the response: \<open>updateEvent\<close> then issues the update of the
  event and nothing else, and \<open>responseToEvent\<close> issues no request.
\<close>

theorem unknown_response_not_submitted:
  "(in_response event = None \<or> (\<exists>r. in_response event = Some r \<and> er_status r = Unknown)
      \<longrightarrow> fst (updateEvent graphClient tzs JSON_parse calendarPath calendarId eventId event)
            = [\<lparr> rq_method = PATCH,
                 rq_path = calendarPath calendarId @ ''/events/'' @ eventId,
                 rq_body = EventBody (toMicrosoftEvent tzs event) \<rparr>])
   \<and> (er_status response = Unknown
      \<longrightarrow> fst (responseToEvent graphClient calendarId eventId response) = [])"
  by (auto simp: updateEvent_def responseToEvent_def Let_def split: sum.splits option.splits)

theorem unknown_response_not_submitted_witness:
  "fst (updateEvent sampleClient sampleZones sampleJsonParse sampleCalendarPath ''c1'' ''e1''
          (sampleInput \<lparr> in_response :=
             Some \<lparr> er_status = Unknown, er_comment = None, er_sendUpdate = False \<rparr> \<rparr>))
     = [\<lparr> rq_method = PATCH, rq_path = ''/me/calendars/c1/events/e1'',
          rq_body = EventBody (toMicrosoftEvent sampleZones
            (sampleInput \<lparr> in_response :=
               Some \<lparr> er_status = Unknown, er_comment = None, er_sendUpdate = False \<rparr> \<rparr>)) \<rparr>]
   \<and> fst (responseToEvent sampleClient ''c1'' ''e1''
            \<lparr> er_status = Unknown, er_comment = None, er_sendUpdate = False \<rparr>) = []
   \<and> fst (updateEvent sampleClient sampleZones sampleJsonParse sampleCalendarPath ''c1'' ''e1''
            (sampleInput \<lparr> in_response :=
               Some \<lparr> er_status = Declined, er_comment = None, er_sendUpdate = False \<rparr> \<rparr>))
     = [\<lparr> rq_method = PATCH, rq_path = ''/me/calendars/c1/events/e1'',
          rq_body = EventBody (toMicrosoftEvent sampleZones
            (sampleInput \<lparr> in_response :=
               Some \<lparr> er_status = Declined, er_comment = None, er_sendUpdate = False \<rparr> \<rparr>)) \<rparr>,
        \<lparr> rq_method = POST, rq_path = ''/me/events/e1/decline'',
          rq_body = ResponseBody None False \<rparr>]"
proof (intro conjI)
  let ?r = "\<lparr> er_status = Unknown, er_comment = None, er_sendUpdate = False \<rparr>"
  show "fst (updateEvent sampleClient sampleZones sampleJsonParse sampleCalendarPath ''c1'' ''e1''
          (sampleInput \<lparr> in_response := Some ?r \<rparr>))
     = [\<lparr> rq_method = PATCH, rq_path = ''/me/calendars/c1/events/e1'',
          rq_body = EventBody (toMicrosoftEvent sampleZones (sampleInput \<lparr> in_response := Some ?r \<rparr>)) \<rparr>]"
    using unknown_response_not_submitted
      [of "sampleInput \<lparr> in_response := Some ?r \<rparr>" sampleClient sampleZones sampleJsonParse
        sampleCalendarPath "''c1''" "''e1''" ?r, THEN conjunct1]
    by (simp add: sampleCalendarPath_def)
  show "fst (responseToEvent sampleClient ''c1'' ''e1'' ?r) = []"
    using unknown_response_not_submitted
      [of "sampleInput \<lparr> in_response := Some ?r \<rparr>" sampleClient sampleZones sampleJsonParse
        sampleCalendarPath "''c1''" "''e1''" ?r, THEN conjunct2]
    by simp
  show "fst (updateEvent sampleClient sampleZones sampleJsonParse sampleCalendarPath ''c1'' ''e1''
            (sampleInput \<lparr> in_response :=
               Some \<lparr> er_status = Declined, er_comment = None, er_sendUpdate = False \<rparr> \<rparr>))
     = [\<lparr> rq_method = PATCH, rq_path = ''/me/calendars/c1/events/e1'',
          rq_body = EventBody (toMicrosoftEvent sampleZones
            (sampleInput \<lparr> in_response :=
               Some \<lparr> er_status = Declined, er_comment = None, er_sendUpdate = False \<rparr> \<rparr>)) \<rparr>,
        \<lparr> rq_method = POST, rq_path = ''/me/events/e1/decline'',
          rq_body = ResponseBody None False \<rparr>]"
    by (simp add: updateEvent_def sampleClient_def sampleCalendarPath_def
        eventResponseStatusPath_def Let_def)
qed

subsection \<open>Blocked time\<close>

lemma parseBlockedTime_private:
  assumes "ge_extendedProperties event = Some props" and "ep_private props = Some m"
    and "m ''blockedTime'' = Some s" and "s \<noteq> []"
  shows "parseBlockedTime JSON_parse event = parseBlockedTimeData JSON_parse s"
  using assms by (simp add: parseBlockedTime_def truthy_string_def Let_def)

lemma parseBlockedTime_ms_value:
  assumes "me_singleValueExtendedProperties event = Some props"
    and "findBlockedTimeProperty props = Some prop"
    and "svp_value prop = Some s" and "s \<noteq> []"
  shows "parseBlockedTime_ms JSON_parse event = parseBlockedTimeData JSON_parse s"
  using assms by (simp add: parseBlockedTime_ms_def truthy_string_def Let_def)

lemma parseBlockedTimeData_object:
  "JSON_parse s = Some (JObject members) \<Longrightarrow>
   parseBlockedTimeData JSON_parse s =
     (if positiveNumber (map_of members ''before'') = None
         \<and> positiveNumber (map_of members ''after'') = None then None
      else Some \<lparr> bt_before = positiveNumber (map_of members ''before''),
                  bt_after = positiveNumber (map_of members ''after'') \<rparr>)"
  by (simp add: parseBlockedTimeData_def getProperty_def Let_def)

lemma parseBlockedTimeData_malformed:
  "JSON_parse s = None \<Longrightarrow> parseBlockedTimeData JSON_parse s = None"
  by (simp add: parseBlockedTimeData_def)

text \<open>
  Claim C6. For the blocked-time parser of each provider, on an event whose blocked-time
  text is \<open>s\<close> (for Google the non-empty private value, for Microsoft the value of the
  first property whose id contains \<open>Name blockedTime\<close>): when \<open>s\<close> parses to
  \<open>{before: -1, after: 15}\<close> the result is \<open>{after: 15}\<close> only; when it parses to
  \<open>{before: 0, after: 0}\<close> there is no result at all; when \<open>JSON.parse\<close> throws there is
  no result either. In general only the positive numbers among \<open>before\<close> and \<open>after\<close>
  are kept, and the two parsers agree.
\<close>

theorem blocked_time_validation:
  assumes "ge_extendedProperties gevent = Some gprops" and "ep_private gprops = Some m"
    and "m ''blockedTime'' = Some s"
    and "me_singleValueExtendedProperties mevent = Some mprops"
    and "findBlockedTimeProperty mprops = Some prop" and "svp_value prop = Some s"
    and "s \<noteq> []"
  shows
    "(JSON_parse s = Some (JObject [(''before'', JNumber (- 1)), (''after'', JNumber 15)])
        \<longrightarrow> parseBlockedTime JSON_parse gevent = Some \<lparr> bt_before = None, bt_after = Some 15 \<rparr>
          \<and> parseBlockedTime_ms JSON_parse mevent = Some \<lparr> bt_before = None, bt_after = Some 15 \<rparr>)
     \<and> (JSON_parse s = Some (JObject [(''before'', JNumber 0), (''after'', JNumber 0)])
        \<longrightarrow> parseBlockedTime JSON_parse gevent = None
          \<and> parseBlockedTime_ms JSON_parse mevent = None)
     \<and> (JSON_parse s = None
        \<longrightarrow> parseBlockedTime JSON_parse gevent = None
          \<and> parseBlockedTime_ms JSON_parse mevent = None)
     \<and> (\<forall>members. JSON_parse s = Some (JObject members)
        \<longrightarrow> parseBlockedTime JSON_parse gevent =
              (if positiveNumber (map_of members ''before'') = None
                  \<and> positiveNumber (map_of members ''after'') = None then None
               else Some \<lparr> bt_before = positiveNumber (map_of members ''before''),
                           bt_after = positiveNumber (map_of members ''after'') \<rparr>)
          \<and> parseBlockedTime_ms JSON_parse mevent = parseBlockedTime JSON_parse gevent)"
proof -
  have g: "parseBlockedTime JSON_parse gevent = parseBlockedTimeData JSON_parse s"
    using assms by (intro parseBlockedTime_private)
  have ms: "parseBlockedTime_ms JSON_parse mevent = parseBlockedTimeData JSON_parse s"
    using assms by (intro parseBlockedTime_ms_value)
  show ?thesis
    unfolding g ms
    by (auto simp: parseBlockedTimeData_object parseBlockedTimeData_malformed positiveNumber_def)
qed

lemma sample_texts:
  "windowText ''-1'' ''15'' \<noteq> []" "windowText ''0'' ''0'' \<noteq> []"
  "sampleJsonParse (windowText ''-1'' ''15'')
     = Some (JObject [(''before'', JNumber (- 1)), (''after'', JNumber 15)])"
  "sampleJsonParse (windowText ''0'' ''0'')
     = Some (JObject [(''before'', JNumber 0), (''after'', JNumber 0)])"
  "sampleJsonParse ''{oops'' = None"
  by (simp_all add: sampleJsonParse_def windowText_def quoted_def window_def)

lemma sample_property:
  "findBlockedTimeProperty
     [\<lparr> svp_id = Some ''String {66f5a359-4659-4830-9070-00047ec6ac6e} Name blockedTime'',
        svp_value = Some s \<rparr>]
   = Some \<lparr> svp_id = Some ''String {66f5a359-4659-4830-9070-00047ec6ac6e} Name blockedTime'',
            svp_value = Some s \<rparr>"
  by (simp add: findBlockedTimeProperty_def truthy_string_def)

theorem blocked_time_validation_witness:
  "parseBlockedTime sampleJsonParse (googleEventWithBlockedTime (windowText ''-1'' ''15''))
     = Some \<lparr> bt_before = None, bt_after = Some 15 \<rparr>
   \<and> parseBlockedTime_ms sampleJsonParse (microsoftEventWithBlockedTime (windowText ''-1'' ''15''))
     = Some \<lparr> bt_before = None, bt_after = Some 15 \<rparr>
   \<and> parseBlockedTime sampleJsonParse (googleEventWithBlockedTime (windowText ''0'' ''0'')) = None
   \<and> parseBlockedTime_ms sampleJsonParse (microsoftEventWithBlockedTime (windowText ''0'' ''0'')) = None
   \<and> parseBlockedTime sampleJsonParse (googleEventWithBlockedTime ''{oops'') = None
   \<and> parseBlockedTime_ms sampleJsonParse (microsoftEventWithBlockedTime ''{oops'') = None"
proof -
  have a: "s \<noteq> [] \<Longrightarrow>
    (sampleJsonParse s = Some (JObject [(''before'', JNumber (- 1)), (''after'', JNumber 15)])
        \<longrightarrow> parseBlockedTime sampleJsonParse (googleEventWithBlockedTime s)
            = Some \<lparr> bt_before = None, bt_after = Some 15 \<rparr>
          \<and> parseBlockedTime_ms sampleJsonParse (microsoftEventWithBlockedTime s)
            = Some \<lparr> bt_before = None, bt_after = Some 15 \<rparr>)
     \<and> (sampleJsonParse s = Some (JObject [(''before'', JNumber 0), (''after'', JNumber 0)])
        \<longrightarrow> parseBlockedTime sampleJsonParse (googleEventWithBlockedTime s) = None
          \<and> parseBlockedTime_ms sampleJsonParse (microsoftEventWithBlockedTime s) = None)
     \<and> (sampleJsonParse s = None
        \<longrightarrow> parseBlockedTime sampleJsonParse (googleEventWithBlockedTime s) = None
          \<and> parseBlockedTime_ms sampleJsonParse (microsoftEventWithBlockedTime s) = None)" for s
    using blocked_time_validation
      [of "googleEventWithBlockedTime s"
          "\<lparr> ep_private = Some [''blockedTime'' \<mapsto> s], ep_shared = None \<rparr>"
          "[''blockedTime'' \<mapsto> s]" s
          "microsoftEventWithBlockedTime s"
          "[\<lparr> svp_id = Some ''String {66f5a359-4659-4830-9070-00047ec6ac6e} Name blockedTime'',
              svp_value = Some s \<rparr>]"
          "\<lparr> svp_id = Some ''String {66f5a359-4659-4830-9070-00047ec6ac6e} Name blockedTime'',
             svp_value = Some s \<rparr>"
          sampleJsonParse]
      sample_property [of s]
    by (simp add: googleEventWithBlockedTime_def microsoftEventWithBlockedTime_def)
  have "''{oops'' \<noteq> []" by simp
  from a [OF sample_texts(1)] a [OF sample_texts(2)] a [OF this] sample_texts(3-5)
  show ?thesis by simp
qed

text \<open>
  Claim C10, as amended. When the private extended properties hold a non-empty
  \<open>blockedTime\<close> string, Google's blocked-time parser reads it, whatever the shared
  properties hold. The shared value is read when the private properties are absent, have
  no \<open>blockedTime\<close> key, or hold the empty string under it.
\<close>

theorem private_blocked_time_first:
  assumes "ge_extendedProperties event = Some props"
  shows
    "(\<forall>m s. ep_private props = Some m \<and> m ''blockedTime'' = Some s \<and> s \<noteq> []
        \<longrightarrow> parseBlockedTime JSON_parse event = parseBlockedTimeData JSON_parse s
          \<and> (\<forall>shared. parseBlockedTime JSON_parse
                 (event \<lparr> ge_extendedProperties := Some (props \<lparr> ep_shared := shared \<rparr>) \<rparr>)
               = parseBlockedTime JSON_parse event))
     \<and> (\<forall>shared s.
          (ep_private props = None
           \<or> (\<exists>m. ep_private props = Some m
                 \<and> (m ''blockedTime'' = None \<or> m ''blockedTime'' = Some [])))
          \<and> ep_shared props = Some shared \<and> shared ''blockedTime'' = Some s \<and> s \<noteq> []
        \<longrightarrow> parseBlockedTime JSON_parse event = parseBlockedTimeData JSON_parse s)"
  using assms
  by (auto simp: parseBlockedTime_def truthy_string_def Let_def)

theorem private_blocked_time_first_witness:
  "parseBlockedTime sampleJsonParse
     (googleEventWithBoth (windowText ''0'' ''0'') (windowText ''-1'' ''15'')) = None
   \<and> parseBlockedTime sampleJsonParse
     (googleEventWithBoth (windowText ''-1'' ''15'') (windowText ''0'' ''0''))
     = Some \<lparr> bt_before = None, bt_after = Some 15 \<rparr>
   \<and> parseBlockedTime sampleJsonParse (googleEventWithBoth [] (windowText ''-1'' ''15''))
     = Some \<lparr> bt_before = None, bt_after = Some 15 \<rparr>"
proof -
  have b: "parseBlockedTime sampleJsonParse (googleEventWithBoth [] (windowText ''-1'' ''15''))
      = parseBlockedTimeData sampleJsonParse (windowText ''-1'' ''15'')"
    using private_blocked_time_first
      [of "googleEventWithBoth [] (windowText ''-1'' ''15'')"
          "\<lparr> ep_private = Some [''blockedTime'' \<mapsto> []],
             ep_shared = Some [''blockedTime'' \<mapsto> windowText ''-1'' ''15''] \<rparr>"
          sampleJsonParse, THEN conjunct2, THEN spec, THEN spec,
          of "[''blockedTime'' \<mapsto> windowText ''-1'' ''15'']" "windowText ''-1'' ''15''"]
      sample_texts(1)
    by (simp add: googleEventWithBoth_def)
  have a: "s \<noteq> [] \<Longrightarrow> parseBlockedTime sampleJsonParse (googleEventWithBoth s t)
      = parseBlockedTimeData sampleJsonParse s" for s t
    using private_blocked_time_first
      [of "googleEventWithBoth s t"
          "\<lparr> ep_private = Some [''blockedTime'' \<mapsto> s], ep_shared = Some [''blockedTime'' \<mapsto> t] \<rparr>"
          sampleJsonParse, THEN conjunct1, THEN spec, THEN spec, of "[''blockedTime'' \<mapsto> s]" s]
    by (simp add: googleEventWithBoth_def)
  show ?thesis
    using a [OF sample_texts(1)] a [OF sample_texts(2)] b sample_texts(3-4)
    by (simp add: parseBlockedTimeData_object positiveNumber_def)
qed

theorem shared_blocked_time_counterexample:
  "the (ep_private (the (ge_extendedProperties
      (googleEventWithBoth [] (windowText ''-1'' ''15''))))) ''blockedTime'' = Some []
   \<and> parseBlockedTime sampleJsonParse (googleEventWithBoth [] (windowText ''-1'' ''15''))
     = Some \<lparr> bt_before = None, bt_after = Some 15 \<rparr>
   \<and> parseBlockedTime sampleJsonParse (googleEventWithBlockedTime []) = None"
  using sample_texts
  by (simp add: googleEventWithBoth_def googleEventWithBlockedTime_def parseBlockedTime_def
      truthy_string_def Let_def parseBlockedTimeData_object positiveNumber_def)

subsection \<open>The date codecs\<close>

lemma google_date_roundtrip:
  "parseGoogleCalendarEventDates tzs (Some (toGoogleCalendarDate tzs (PlainDate d)))
      (Some (toGoogleCalendarDate tzs (PlainDate d')))
    = Inr \<lparr> pd_start = PlainDate d, pd_end = PlainDate d', pd_allDay = True \<rparr>"
  by (simp add: parseGoogleCalendarEventDates_def toGoogleCalendarDate_def parseDate_def
      truthy_text_def PlainDate_toString_def)

lemma google_instant_roundtrip:
  "parseGoogleCalendarEventDates tzs (Some (toGoogleCalendarDate tzs (Instant n)))
      (Some (toGoogleCalendarDate tzs (Instant n')))
    = Inr \<lparr> pd_start = Instant n, pd_end = Instant n', pd_allDay = False \<rparr>"
  by (simp add: parseGoogleCalendarEventDates_def toGoogleCalendarDate_def parseDateTime_def
      truthy_text_def truthy_string_def Instant_toString_def)

lemma roundOffsetToMinute_exact:
  assumes "nsPerMinute dvd off"
  shows "roundOffsetToMinute off = off"
proof -
  from assms obtain k where k: "off = nsPerMinute * k" by (elim dvdE)
  show ?thesis
  proof (cases "0 \<le> off")
    case True
    have "(60000000000 * k + 30000000000) div 60000000000 = k" by linarith
    with True show ?thesis by (simp add: roundOffsetToMinute_def k nsPerMinute_def)
  next
    case False
    have "(- (60000000000 * k) + 30000000000) div 60000000000 = - k" by linarith
    with False show ?thesis by (simp add: roundOffsetToMinute_def k nsPerMinute_def)
  qed
qed

lemma google_zoned_roundtrip:
  "knownZone tzs tz \<Longrightarrow> tz \<noteq> [] \<Longrightarrow> knownZone tzs tz' \<Longrightarrow> tz' \<noteq> [] \<Longrightarrow>
   parseGoogleCalendarEventDates tzs (Some (toGoogleCalendarDate tzs (ZonedDateTime n tz)))
      (Some (toGoogleCalendarDate tzs (ZonedDateTime n' tz')))
    = Inr \<lparr> pd_start =
              ZonedDateTime (n + offsetNanosecondsFor tzs tz n
                               - roundOffsetToMinute (offsetNanosecondsFor tzs tz n)) tz,
            pd_end =
              ZonedDateTime (n' + offsetNanosecondsFor tzs tz' n'
                                - roundOffsetToMinute (offsetNanosecondsFor tzs tz' n')) tz',
            pd_allDay = False \<rparr>"
  by (simp add: parseGoogleCalendarEventDates_def toGoogleCalendarDate_def parseDateTime_def
      truthy_text_def truthy_string_def ZonedDateTime_toString_def toZonedDateTimeISO_def)

lemma google_zoned_roundtrip_exact:
  "knownZone tzs tz \<Longrightarrow> tz \<noteq> [] \<Longrightarrow> knownZone tzs tz' \<Longrightarrow> tz' \<noteq> [] \<Longrightarrow>
   nsPerMinute dvd offsetNanosecondsFor tzs tz n \<Longrightarrow>
   nsPerMinute dvd offsetNanosecondsFor tzs tz' n' \<Longrightarrow>
   parseGoogleCalendarEventDates tzs (Some (toGoogleCalendarDate tzs (ZonedDateTime n tz)))
      (Some (toGoogleCalendarDate tzs (ZonedDateTime n' tz')))
    = Inr \<lparr> pd_start = ZonedDateTime n tz, pd_end = ZonedDateTime n' tz', pd_allDay = False \<rparr>"
  by (simp add: google_zoned_roundtrip roundOffsetToMinute_exact)

lemma microsoft_date_roundtrip:
  "parseMicrosoftEventDates tzs (Some (toMicrosoftDate tzs (PlainDate d) otz))
      (Some (toMicrosoftDate tzs (PlainDate d') otz')) (Some True)
    = Inr \<lparr> pd_start = PlainDate d, pd_end = PlainDate d', pd_allDay = True \<rparr>"
  by (simp add: parseMicrosoftEventDates_def toMicrosoftDate_def parseDate_ms_def
      truthy_bool_def PlainDate_toString_def)

lemma microsoft_instant_payload:
  "toMicrosoftDate tzs (Instant n) otz =
     \<lparr> ms_dateTime = Some (DateTimeText n Naive), ms_timeZone = Some ''UTC'' \<rparr>"
  by (simp add: toMicrosoftDate_def utcPlainDateTime_toString_def offsetNanosecondsFor_def)

lemma microsoft_instant_roundtrip:
  "allDay \<noteq> Some True \<Longrightarrow>
   parseMicrosoftEventDates tzs (Some (toMicrosoftDate tzs (Instant n) otz))
      (Some (toMicrosoftDate tzs (Instant n') otz')) allDay
    = Inr \<lparr> pd_start = ZonedDateTime n ''UTC'', pd_end = ZonedDateTime n' ''UTC'',
            pd_allDay = False \<rparr>"
  by (cases allDay)
     (simp_all add: microsoft_instant_payload parseMicrosoftEventDates_def parseDateTime_ms_def
      parseTimeZone_def truthy_bool_def truthy_string_def instantFor_def toZonedDateTimeISO_def
      knownZone_def)

lemma microsoft_zoned_payload:
  "toMicrosoftDate tzs (ZonedDateTime n tz) otz =
     \<lparr> ms_dateTime = Some (DateTimeText n Zulu), ms_timeZone = Some (emittedZone tz otz) \<rparr>"
  by (cases otz) (simp_all add: toMicrosoftDate_def Instant_toString_def emittedZone_def)

lemma microsoft_zoned_roundtrip:
  "allDay \<noteq> Some True \<Longrightarrow>
   emittedZone tz otz \<noteq> [] \<Longrightarrow> parseTimeZone tzs (emittedZone tz otz) = Some z \<Longrightarrow>
   knownZone tzs z \<Longrightarrow>
   emittedZone tz' otz' \<noteq> [] \<Longrightarrow> parseTimeZone tzs (emittedZone tz' otz') = Some z' \<Longrightarrow>
   knownZone tzs z' \<Longrightarrow>
   parseMicrosoftEventDates tzs (Some (toMicrosoftDate tzs (ZonedDateTime n tz) otz))
      (Some (toMicrosoftDate tzs (ZonedDateTime n' tz') otz')) allDay
    = Inr \<lparr> pd_start = ZonedDateTime n z, pd_end = ZonedDateTime n' z', pd_allDay = False \<rparr>"
  by (cases allDay)
     (simp_all add: microsoft_zoned_payload parseMicrosoftEventDates_def parseDateTime_ms_def
      truthy_bool_def truthy_string_def toZonedDateTimeISO_def)

text \<open>
  Claim C1, as amended.
  Through the Google codec a calendar date and an instant come back as they were. A
  zoned date-time of a zone the library knows comes back in its own zone, at the instant
  moved by the difference between the zone's offset and that offset rounded to the
  minute, which is how the string writes it: as it was when the offset is a whole number
  of minutes.
  Through the Microsoft codec a calendar date comes back as it was (the event being
  all-day). An instant comes back as a zoned date-time of the same instant in the zone
  \<open>UTC\<close>, not as an instant. A zoned date-time comes back as the same instant in the zone
  that the emitted zone string denotes, when that string is not empty and denotes a zone
  the library knows; the emitted string is the raw string of the provenance when its
  parsed identifier is the value's zone, and the value's zone otherwise, so the value
  comes back as it was whenever the emitted string denotes the value's own zone.
\<close>

theorem date_roundtrip:
  "parseGoogleCalendarEventDates tzs (Some (toGoogleCalendarDate tzs (PlainDate d)))
      (Some (toGoogleCalendarDate tzs (PlainDate d')))
    = Inr \<lparr> pd_start = PlainDate d, pd_end = PlainDate d', pd_allDay = True \<rparr>
   \<and> parseGoogleCalendarEventDates tzs (Some (toGoogleCalendarDate tzs (Instant n)))
      (Some (toGoogleCalendarDate tzs (Instant n')))
    = Inr \<lparr> pd_start = Instant n, pd_end = Instant n', pd_allDay = False \<rparr>
   \<and> (knownZone tzs tz \<and> tz \<noteq> [] \<and> knownZone tzs tz' \<and> tz' \<noteq> [] \<longrightarrow>
      parseGoogleCalendarEventDates tzs (Some (toGoogleCalendarDate tzs (ZonedDateTime n tz)))
        (Some (toGoogleCalendarDate tzs (ZonedDateTime n' tz')))
      = Inr \<lparr> pd_start =
                ZonedDateTime (n + offsetNanosecondsFor tzs tz n
                                 - roundOffsetToMinute (offsetNanosecondsFor tzs tz n)) tz,
              pd_end =
                ZonedDateTime (n' + offsetNanosecondsFor tzs tz' n'
                                  - roundOffsetToMinute (offsetNanosecondsFor tzs tz' n')) tz',
              pd_allDay = False \<rparr>)
   \<and> (knownZone tzs tz \<and> tz \<noteq> [] \<and> knownZone tzs tz' \<and> tz' \<noteq> []
        \<and> nsPerMinute dvd offsetNanosecondsFor tzs tz n
        \<and> nsPerMinute dvd offsetNanosecondsFor tzs tz' n' \<longrightarrow>
      parseGoogleCalendarEventDates tzs (Some (toGoogleCalendarDate tzs (ZonedDateTime n tz)))
        (Some (toGoogleCalendarDate tzs (ZonedDateTime n' tz')))
      = Inr \<lparr> pd_start = ZonedDateTime n tz, pd_end = ZonedDateTime n' tz', pd_allDay = False \<rparr>)
   \<and> parseMicrosoftEventDates tzs (Some (toMicrosoftDate tzs (PlainDate d) otz))
      (Some (toMicrosoftDate tzs (PlainDate d') otz')) (Some True)
    = Inr \<lparr> pd_start = PlainDate d, pd_end = PlainDate d', pd_allDay = True \<rparr>
   \<and> (allDay \<noteq> Some True \<longrightarrow>
      parseMicrosoftEventDates tzs (Some (toMicrosoftDate tzs (Instant n) otz))
        (Some (toMicrosoftDate tzs (Instant n') otz')) allDay
      = Inr \<lparr> pd_start = ZonedDateTime n ''UTC'', pd_end = ZonedDateTime n' ''UTC'',
              pd_allDay = False \<rparr>)
   \<and> (allDay \<noteq> Some True
        \<and> emittedZone tz otz \<noteq> [] \<and> parseTimeZone tzs (emittedZone tz otz) = Some z
        \<and> knownZone tzs z
        \<and> emittedZone tz' otz' \<noteq> [] \<and> parseTimeZone tzs (emittedZone tz' otz') = Some z'
        \<and> knownZone tzs z' \<longrightarrow>
      parseMicrosoftEventDates tzs (Some (toMicrosoftDate tzs (ZonedDateTime n tz) otz))
        (Some (toMicrosoftDate tzs (ZonedDateTime n' tz') otz')) allDay
      = Inr \<lparr> pd_start = ZonedDateTime n z, pd_end = ZonedDateTime n' z', pd_allDay = False \<rparr>)
   \<and> ms_timeZone (toMicrosoftDate tzs (ZonedDateTime n tz) otz) = Some (emittedZone tz otz)
   \<and> emittedZone tz None = tz
   \<and> (otz_parsed orig = Some tz \<longrightarrow> emittedZone tz (Some orig) = otz_raw orig)
   \<and> (otz_parsed orig \<noteq> Some tz \<longrightarrow> emittedZone tz (Some orig) = tz)"
proof (intro conjI impI)
  show "ms_timeZone (toMicrosoftDate tzs (ZonedDateTime n tz) otz) = Some (emittedZone tz otz)"
    by (simp add: microsoft_zoned_payload)
  show "emittedZone tz None = tz" by (simp add: emittedZone_def)
  show "emittedZone tz (Some orig) = otz_raw orig" if "otz_parsed orig = Some tz"
    using that by (simp add: emittedZone_def)
  show "emittedZone tz (Some orig) = tz" if "otz_parsed orig \<noteq> Some tz"
    using that by (simp add: emittedZone_def)
qed (simp_all add: google_date_roundtrip google_instant_roundtrip google_zoned_roundtrip
      roundOffsetToMinute_exact microsoft_date_roundtrip microsoft_instant_roundtrip
      microsoft_zoned_roundtrip)

lemma sample_zone_facts:
  "knownZone sampleZones ''Europe/Berlin''" "knownZone sampleZones ''Africa/Monrovia''"
  "knownZone sampleZones ''UTC''"
  "offsetNanosecondsFor sampleZones ''Europe/Berlin'' n = 3600000000000"
  "offsetNanosecondsFor sampleZones ''Africa/Monrovia'' n = - 2670000000000"
  "offsetNanosecondsFor sampleZones ''UTC'' n = 0"
  "parseTimeZone sampleZones ''W. Europe Standard Time'' = Some ''Europe/Berlin''"
  "parseTimeZone sampleZones ''Europe/Berlin'' = Some ''Europe/Berlin''"
  "nsPerMinute dvd 3600000000000"
  "roundOffsetToMinute (- 2670000000000) = - 2700000000000"
  by (simp_all add: knownZone_def offsetNanosecondsFor_def parseTimeZone_def sampleZones_def
      sampleOffset_def nsPerMinute_def roundOffsetToMinute_def)

theorem date_roundtrip_witness:
  "parseGoogleCalendarEventDates sampleZones
      (Some (toGoogleCalendarDate sampleZones (ZonedDateTime 0 ''Europe/Berlin'')))
      (Some (toGoogleCalendarDate sampleZones (ZonedDateTime 3600000000000 ''UTC'')))
    = Inr \<lparr> pd_start = ZonedDateTime 0 ''Europe/Berlin'',
            pd_end = ZonedDateTime 3600000000000 ''UTC'', pd_allDay = False \<rparr>
   \<and> parseGoogleCalendarEventDates sampleZones
      (Some (toGoogleCalendarDate sampleZones (ZonedDateTime 0 ''Africa/Monrovia'')))
      (Some (toGoogleCalendarDate sampleZones (ZonedDateTime 3600000000000 ''Africa/Monrovia'')))
    = Inr \<lparr> pd_start = ZonedDateTime 30000000000 ''Africa/Monrovia'',
            pd_end = ZonedDateTime 3630000000000 ''Africa/Monrovia'', pd_allDay = False \<rparr>
   \<and> parseMicrosoftEventDates sampleZones
      (Some (toMicrosoftDate sampleZones (Instant 0) None))
      (Some (toMicrosoftDate sampleZones (Instant 3600000000000) None)) None
    = Inr \<lparr> pd_start = ZonedDateTime 0 ''UTC'', pd_end = ZonedDateTime 3600000000000 ''UTC'',
            pd_allDay = False \<rparr>
   \<and> parseMicrosoftEventDates sampleZones
      (Some (toMicrosoftDate sampleZones (ZonedDateTime 0 ''Europe/Berlin'')
         (Some \<lparr> otz_raw = ''W. Europe Standard Time'', otz_parsed = Some ''Europe/Berlin'' \<rparr>)))
      (Some (toMicrosoftDate sampleZones (ZonedDateTime 3600000000000 ''Europe/Berlin'') None))
      (Some False)
    = Inr \<lparr> pd_start = ZonedDateTime 0 ''Europe/Berlin'',
            pd_end = ZonedDateTime 3600000000000 ''Europe/Berlin'', pd_allDay = False \<rparr>
   \<and> ms_timeZone (toMicrosoftDate sampleZones (ZonedDateTime 0 ''Europe/Berlin'')
         (Some \<lparr> otz_raw = ''W. Europe Standard Time'', otz_parsed = Some ''Europe/Berlin'' \<rparr>))
     = Some ''W. Europe Standard Time''"
proof (intro conjI)
  let ?orig = "\<lparr> otz_raw = ''W. Europe Standard Time'', otz_parsed = Some ''Europe/Berlin'' \<rparr>"
  show "parseGoogleCalendarEventDates sampleZones
      (Some (toGoogleCalendarDate sampleZones (ZonedDateTime 0 ''Europe/Berlin'')))
      (Some (toGoogleCalendarDate sampleZones (ZonedDateTime 3600000000000 ''UTC'')))
    = Inr \<lparr> pd_start = ZonedDateTime 0 ''Europe/Berlin'',
            pd_end = ZonedDateTime 3600000000000 ''UTC'', pd_allDay = False \<rparr>"
    using date_roundtrip
      [where tzs = sampleZones and n = 0 and n' = 3600000000000 and tz = "''Europe/Berlin''"
        and tz' = "''UTC''", THEN conjunct2, THEN conjunct2, THEN conjunct2, THEN conjunct1]
      sample_zone_facts
    by simp
  show "parseGoogleCalendarEventDates sampleZones
      (Some (toGoogleCalendarDate sampleZones (ZonedDateTime 0 ''Africa/Monrovia'')))
      (Some (toGoogleCalendarDate sampleZones (ZonedDateTime 3600000000000 ''Africa/Monrovia'')))
    = Inr \<lparr> pd_start = ZonedDateTime 30000000000 ''Africa/Monrovia'',
            pd_end = ZonedDateTime 3630000000000 ''Africa/Monrovia'', pd_allDay = False \<rparr>"
    using date_roundtrip
      [where tzs = sampleZones and n = 0 and n' = 3600000000000 and tz = "''Africa/Monrovia''"
        and tz' = "''Africa/Monrovia''", THEN conjunct2, THEN conjunct2, THEN conjunct1]
      sample_zone_facts
    by simp
  show "parseMicrosoftEventDates sampleZones
      (Some (toMicrosoftDate sampleZones (Instant 0) None))
      (Some (toMicrosoftDate sampleZones (Instant 3600000000000) None)) None
    = Inr \<lparr> pd_start = ZonedDateTime 0 ''UTC'', pd_end = ZonedDateTime 3600000000000 ''UTC'',
            pd_allDay = False \<rparr>"
    using date_roundtrip
      [where tzs = sampleZones and n = 0 and n' = 3600000000000 and otz = None
        and otz' = None and allDay = None]
    by simp
  show "parseMicrosoftEventDates sampleZones
      (Some (toMicrosoftDate sampleZones (ZonedDateTime 0 ''Europe/Berlin'') (Some ?orig)))
      (Some (toMicrosoftDate sampleZones (ZonedDateTime 3600000000000 ''Europe/Berlin'') None))
      (Some False)
    = Inr \<lparr> pd_start = ZonedDateTime 0 ''Europe/Berlin'',
            pd_end = ZonedDateTime 3600000000000 ''Europe/Berlin'', pd_allDay = False \<rparr>"
    using date_roundtrip
      [where tzs = sampleZones and n = 0 and n' = 3600000000000 and tz = "''Europe/Berlin''"
        and tz' = "''Europe/Berlin''" and otz = "Some ?orig" and otz' = None
        and allDay = "Some False" and z = "''Europe/Berlin''" and z' = "''Europe/Berlin''"]
      sample_zone_facts
    by (simp add: emittedZone_def)
  show "ms_timeZone (toMicrosoftDate sampleZones (ZonedDateTime 0 ''Europe/Berlin'') (Some ?orig))
     = Some ''W. Europe Standard Time''"
    using date_roundtrip
      [where tzs = sampleZones and n = 0 and tz = "''Europe/Berlin''" and otz = "Some ?orig"]
    by (simp add: emittedZone_def)
qed

theorem microsoft_instant_roundtrip_counterexample:
  "parseMicrosoftEventDates sampleZones
      (Some (toMicrosoftDate sampleZones (Instant 0) None))
      (Some (toMicrosoftDate sampleZones (Instant 3600000000000) None)) (Some False)
    = Inr \<lparr> pd_start = ZonedDateTime 0 ''UTC'', pd_end = ZonedDateTime 3600000000000 ''UTC'',
            pd_allDay = False \<rparr>
   \<and> ZonedDateTime 0 ''UTC'' \<noteq> Instant 0
   \<and> parseMicrosoftEventDates sampleZones
      (Some (toMicrosoftDate sampleZones (Instant 0) None))
      (Some (toMicrosoftDate sampleZones (Instant 3600000000000) None)) (Some True)
    = Inr \<lparr> pd_start = PlainDate 0, pd_end = PlainDate 0, pd_allDay = True \<rparr>
   \<and> PlainDate 0 \<noteq> Instant 0
   \<and> parseGoogleCalendarEventDates sampleZones
      (Some (toGoogleCalendarDate sampleZones (ZonedDateTime 0 ''Africa/Monrovia'')))
      (Some (toGoogleCalendarDate sampleZones (ZonedDateTime 0 ''Africa/Monrovia'')))
    = Inr \<lparr> pd_start = ZonedDateTime 30000000000 ''Africa/Monrovia'',
            pd_end = ZonedDateTime 30000000000 ''Africa/Monrovia'', pd_allDay = False \<rparr>"
proof (intro conjI)
  show "parseMicrosoftEventDates sampleZones
      (Some (toMicrosoftDate sampleZones (Instant 0) None))
      (Some (toMicrosoftDate sampleZones (Instant 3600000000000) None)) (Some True)
    = Inr \<lparr> pd_start = PlainDate 0, pd_end = PlainDate 0, pd_allDay = True \<rparr>"
    by (simp add: microsoft_instant_payload parseMicrosoftEventDates_def parseDate_ms_def
        truthy_bool_def nsPerDay_def)
  show "parseGoogleCalendarEventDates sampleZones
      (Some (toGoogleCalendarDate sampleZones (ZonedDateTime 0 ''Africa/Monrovia'')))
      (Some (toGoogleCalendarDate sampleZones (ZonedDateTime 0 ''Africa/Monrovia'')))
    = Inr \<lparr> pd_start = ZonedDateTime 30000000000 ''Africa/Monrovia'',
            pd_end = ZonedDateTime 30000000000 ''Africa/Monrovia'', pd_allDay = False \<rparr>"
    using sample_zone_facts by (simp add: google_zoned_roundtrip)
qed (simp_all add: microsoft_instant_roundtrip)

text \<open>
  Claim C2, as amended. \<open>toMicrosoftDate\<close> serializes an instant as the reading of the
  UTC clock with no designator, and sets the zone field to \<open>UTC\<close>. \<open>toGoogleCalendarDate\<close>
  serializes it as the reading of the UTC clock followed by the designator \<open>Z\<close>, and sets
  no zone field.
\<close>

theorem instant_serialization:
  "toMicrosoftDate tzs (Instant n) otz =
     \<lparr> ms_dateTime = Some (DateTimeText n Naive), ms_timeZone = Some ''UTC'' \<rparr>
   \<and> toGoogleCalendarDate tzs (Instant n) =
     \<lparr> g_date = None, g_dateTime = Some (DateTimeText n Zulu), g_timeZone = None \<rparr>"
  by (simp add: microsoft_instant_payload toGoogleCalendarDate_def Instant_toString_def)

theorem google_instant_counterexample:
  "g_timeZone (toGoogleCalendarDate sampleZones (Instant 0)) = None
   \<and> g_dateTime (toGoogleCalendarDate sampleZones (Instant 0)) = Some (DateTimeText 0 Zulu)"
  by (simp add: toGoogleCalendarDate_def Instant_toString_def)

text \<open>
  Claim C3, as amended. \<open>toGoogleCalendarDate\<close> serializes a calendar date as a
  date-only string in \<open>date\<close>, with no \<open>dateTime\<close> and no zone field.
  \<open>toMicrosoftDate\<close> serializes it as a date-only string in \<open>dateTime\<close>, and sets the
  zone field: to the raw zone string of the provenance when there is one, to \<open>UTC\<close>
  otherwise.
\<close>

theorem calendar_date_serialization:
  "toGoogleCalendarDate tzs (PlainDate d) =
     \<lparr> g_date = Some (DateText d), g_dateTime = None, g_timeZone = None \<rparr>
   \<and> toMicrosoftDate tzs (PlainDate d) otz =
     \<lparr> ms_dateTime = Some (DateText d),
       ms_timeZone = Some (case otz of None \<Rightarrow> ''UTC'' | Some orig \<Rightarrow> otz_raw orig) \<rparr>"
  by (simp add: toGoogleCalendarDate_def toMicrosoftDate_def PlainDate_toString_def)

theorem microsoft_calendar_date_counterexample:
  "ms_timeZone (toMicrosoftDate sampleZones (PlainDate 19783) None) = Some ''UTC''"
  by (simp add: toMicrosoftDate_def)

subsection \<open>Conference fallback\<close>

lemma firstMeetingLink_append:
  "firstMeetingLink detect (xs @ ys) =
     (case firstMeetingLink detect xs of
        Some c \<Rightarrow> Some c
      | None \<Rightarrow> firstMeetingLink detect ys)"
  by (induction xs) (auto split: option.splits)

lemma checkField_candidates:
  "checkField detect field = firstMeetingLink detect (fieldCandidate field)"
  by (simp add: checkField_def fieldCandidate_def split: option.splits)

lemma checkUrlsOf_candidates:
  "checkUrlsOf detect field = firstMeetingLink detect (urlCandidates field)"
  by (simp add: checkUrlsOf_def urlCandidates_def)

lemma firstAttachmentLink_candidates:
  "firstAttachmentLink detect attachments =
     firstMeetingLink detect (concat (map fieldCandidate attachments))"
  by (induction attachments)
     (auto simp: fieldCandidate_def firstMeetingLink_append split: option.splits)

lemma fallback_candidates:
  "parseGoogleCalendarConferenceFallback detect event =
     firstMeetingLink detect (conferenceCandidates event)"
  by (simp add: parseGoogleCalendarConferenceFallback_def conferenceCandidates_def
      firstMeetingLink_append checkField_candidates checkUrlsOf_candidates
      firstAttachmentLink_candidates
      split: option.splits)

lemma checkMeetingLink_None: "checkMeetingLink detect url = None \<longleftrightarrow> detect url = None"
  by (simp add: checkMeetingLink_def split: option.splits)

lemma firstMeetingLink_first:
  "i < length urls \<Longrightarrow> detect (urls ! i) \<noteq> None \<Longrightarrow> (\<forall>j<i. detect (urls ! j) = None) \<Longrightarrow>
   firstMeetingLink detect urls = checkMeetingLink detect (urls ! i)"
proof (induction urls arbitrary: i)
  case Nil
  then show ?case by simp
next
  case (Cons url urls)
  show ?case
  proof (cases i)
    case 0
    with Cons.prems show ?thesis
      by (auto simp: checkMeetingLink_None split: option.splits)
  next
    case (Suc k)
    with Cons.prems have "detect url = None" by auto
    then have skip: "checkMeetingLink detect url = None" by (simp add: checkMeetingLink_None)
    have "firstMeetingLink detect urls = checkMeetingLink detect (urls ! k)"
    proof (rule Cons.IH)
      show "k < length urls" using Cons.prems Suc by simp
      show "detect (urls ! k) \<noteq> None" using Cons.prems Suc by simp
      show "\<forall>j<k. detect (urls ! j) = None"
      proof (intro allI impI)
        fix j assume "j < k"
        then have "Suc j < i" using Suc by simp
        with Cons.prems have "detect ((url # urls) ! Suc j) = None" by blast
        then show "detect (urls ! j) = None" by simp
      qed
    qed
    with skip Suc show ?thesis by simp
  qed
qed

lemma firstMeetingLink_none:
  "(\<forall>url\<in>set urls. detect url = None) \<Longrightarrow> firstMeetingLink detect urls = None"
  by (induction urls) (auto simp: checkMeetingLink_None split: option.splits)

lemma checkMeetingLink_not_empty: "checkMeetingLink detect url \<noteq> Some emptyConference"
  by (simp add: checkMeetingLink_def emptyConference_def split: option.splits)

lemma firstMeetingLink_not_empty: "firstMeetingLink detect urls \<noteq> Some emptyConference"
proof (induction urls)
  case Nil
  show ?case by simp
next
  case (Cons url urls)
  show ?case
  proof (cases "checkMeetingLink detect url")
    case None
    with Cons show ?thesis by simp
  next
    case (Some c)
    with checkMeetingLink_not_empty [of detect url] show ?thesis by simp
  qed
qed

text \<open>
  Claim C7. For an event with no native conference entry points, the conference is the
  one of the first candidate, in the order hangout link, URLs of the description, URLs of
  the location, source URL, file URLs of the attachments, gadget link, that
  \<open>detectMeetingLink\<close> resolves. In particular a hangout link that resolves decides the
  result, whatever the description holds. When no candidate resolves the result is
  \<open>undefined\<close>, and in no case is it a conference with no field set.
\<close>

theorem conference_fallback_priority:
  assumes "noEntryPoints event"
  shows
    "(\<forall>i. i < length (conferenceCandidates event)
          \<and> detect (conferenceCandidates event ! i) \<noteq> None
          \<and> (\<forall>j<i. detect (conferenceCandidates event ! j) = None)
        \<longrightarrow> parseGoogleCalendarConferenceData detect event
            = checkMeetingLink detect (conferenceCandidates event ! i))
     \<and> (truthy_string (ge_hangoutLink event) \<and> detect (the (ge_hangoutLink event)) \<noteq> None
        \<longrightarrow> parseGoogleCalendarConferenceData detect event
            = checkMeetingLink detect (the (ge_hangoutLink event)))
     \<and> ((\<forall>url \<in> set (conferenceCandidates event). detect url = None)
        \<longrightarrow> parseGoogleCalendarConferenceData detect event = None)
     \<and> parseGoogleCalendarConferenceData detect event \<noteq> Some emptyConference"
proof -
  have eq: "parseGoogleCalendarConferenceData detect event
      = firstMeetingLink detect (conferenceCandidates event)"
    using assms by (simp add: parseGoogleCalendarConferenceData_def fallback_candidates)
  have hangout: "parseGoogleCalendarConferenceData detect event
      = checkMeetingLink detect (the (ge_hangoutLink event))"
    if "truthy_string (ge_hangoutLink event)" and "detect (the (ge_hangoutLink event)) \<noteq> None"
  proof -
    from that(1) have "conferenceCandidates event ! 0 = the (ge_hangoutLink event)"
      and "0 < length (conferenceCandidates event)"
      by (simp_all add: conferenceCandidates_def fieldCandidate_def)
    with that(2) show ?thesis
      unfolding eq using firstMeetingLink_first [of 0 "conferenceCandidates event" detect]
      by simp
  qed
  show ?thesis
    unfolding eq [symmetric]
    using hangout
    by (auto simp: eq firstMeetingLink_first firstMeetingLink_none firstMeetingLink_not_empty)
qed

lemma extract_samples:
  "extractUrls ''Join https://zoom.us/j/123 now'' = [''https://zoom.us/j/123'']"
  "extractUrls ''Room 4'' = []"
  by code_simp+

theorem conference_fallback_priority_witness:
  "parseGoogleCalendarConferenceData sampleDetect
     (sampleGoogleEvent
        \<lparr> ge_description := Some ''Join https://zoom.us/j/123 now'',
          ge_hangoutLink := Some ''https://meet.google.com/abc-defg-hij'' \<rparr>)
     = Some \<lparr> c_id = Some ''abc-defg-hij'', c_conferenceId = None, c_name = Some ''Google Meet'',
              c_video = Some \<lparr> cep_label = None,
                               cep_value = ''https://meet.google.com/abc-defg-hij'',
                               cep_meetingCode = Some ''abc-defg-hij'',
                               cep_accessCode = None, cep_password = None \<rparr>,
              c_sip = None, c_phone = None \<rparr>
   \<and> parseGoogleCalendarConferenceData sampleDetect
       (sampleGoogleEvent \<lparr> ge_description := Some ''Join https://zoom.us/j/123 now'' \<rparr>)
     = Some \<lparr> c_id = Some ''123'', c_conferenceId = None, c_name = Some ''Zoom'',
              c_video = Some \<lparr> cep_label = None, cep_value = ''https://zoom.us/j/123'',
                               cep_meetingCode = Some ''123'',
                               cep_accessCode = None, cep_password = None \<rparr>,
              c_sip = None, c_phone = None \<rparr>
   \<and> parseGoogleCalendarConferenceData sampleDetect
       (sampleGoogleEvent \<lparr> ge_location := Some ''Room 4'' \<rparr>) = None"
proof (intro conjI)
  let ?both = "sampleGoogleEvent
        \<lparr> ge_description := Some ''Join https://zoom.us/j/123 now'',
          ge_hangoutLink := Some ''https://meet.google.com/abc-defg-hij'' \<rparr>"
  have "noEntryPoints ?both" by (simp add: noEntryPoints_def sampleGoogleEvent_def)
  from conference_fallback_priority [OF this, of sampleDetect, THEN conjunct2, THEN conjunct1]
  show "parseGoogleCalendarConferenceData sampleDetect ?both
     = Some \<lparr> c_id = Some ''abc-defg-hij'', c_conferenceId = None, c_name = Some ''Google Meet'',
              c_video = Some \<lparr> cep_label = None,
                               cep_value = ''https://meet.google.com/abc-defg-hij'',
                               cep_meetingCode = Some ''abc-defg-hij'',
                               cep_accessCode = None, cep_password = None \<rparr>,
              c_sip = None, c_phone = None \<rparr>"
    by (simp add: truthy_string_def sampleDetect_def checkMeetingLink_def)
next
  let ?desc = "sampleGoogleEvent \<lparr> ge_description := Some ''Join https://zoom.us/j/123 now'' \<rparr>"
  have n: "noEntryPoints ?desc" by (simp add: noEntryPoints_def sampleGoogleEvent_def)
  have c: "conferenceCandidates ?desc = [''https://zoom.us/j/123'']"
    by (simp add: conferenceCandidates_def fieldCandidate_def urlCandidates_def
        truthy_string_def sampleGoogleEvent_def extract_samples)
  from conference_fallback_priority
    [OF n, of sampleDetect, THEN conjunct1, THEN spec, of 0]
  show "parseGoogleCalendarConferenceData sampleDetect ?desc
     = Some \<lparr> c_id = Some ''123'', c_conferenceId = None, c_name = Some ''Zoom'',
              c_video = Some \<lparr> cep_label = None, cep_value = ''https://zoom.us/j/123'',
                               cep_meetingCode = Some ''123'',
                               cep_accessCode = None, cep_password = None \<rparr>,
              c_sip = None, c_phone = None \<rparr>"
    by (simp add: c sampleDetect_def checkMeetingLink_def)
next
  let ?room = "sampleGoogleEvent \<lparr> ge_location := Some ''Room 4'' \<rparr>"
  have n: "noEntryPoints ?room" by (simp add: noEntryPoints_def sampleGoogleEvent_def)
  have c: "conferenceCandidates ?room = []"
    by (simp add: conferenceCandidates_def fieldCandidate_def urlCandidates_def
        truthy_string_def sampleGoogleEvent_def extract_samples)
  from conference_fallback_priority
    [OF n, of sampleDetect, THEN conjunct2, THEN conjunct2, THEN conjunct1]
  show "parseGoogleCalendarConferenceData sampleDetect ?room = None"
    by (simp add: c)
qed

end
